theory Spec2Isabelle
  imports Main "HOL-Library.Word"
begin

unbundle bit_operations_syntax

section \<open>Bytes and the big-endian scalar codec\<close>

text \<open>
  The declarations of \<^verbatim>\<open>psd.h\<close> (the \<^verbatim>\<open>be<T>\<close> wrapper, the signature type, the
  struct layouts) are not part of the sources at hand; \<^verbatim>\<open>psd.cpp\<close> uses them through
  raw reads and writes of a fixed number of bytes.  A \<^verbatim>\<open>be<T>\<close> value is modelled by the
  number its bytes denote, most significant byte first.
\<close>

type_synonym byte = "8 word"

text \<open>Modelled from the spec: \<^verbatim>\<open>be<T>\<close> read as a number (section 4.1, big-endian decode).\<close>

definition be_decode :: "byte list \<Rightarrow> 'a::len word" where
  "be_decode bs = foldl (\<lambda>acc b. push_bit 8 acc OR ucast b) 0 bs"

text \<open>Modelled from the spec: the bytes of a \<^verbatim>\<open>be<uint16_t>\<close> and of a \<^verbatim>\<open>be<uint32_t>\<close>
  (section 4.1, big-endian encode).\<close>

definition be16_bytes :: "16 word \<Rightarrow> byte list" where
  "be16_bytes w = [ucast (drop_bit 8 w), ucast w]"

definition be32_bytes :: "32 word \<Rightarrow> byte list" where
  "be32_bytes w = [ucast (drop_bit 24 w), ucast (drop_bit 16 w), ucast (drop_bit 8 w), ucast w]"

text \<open>The four-character constants the code compares signatures and keys with.\<close>

definition magic_8BIM :: "byte list" where "magic_8BIM = [0x38, 0x42, 0x49, 0x4D]"
definition magic_8BPS :: "byte list" where "magic_8BPS = [0x38, 0x42, 0x50, 0x53]"
definition magic_8B64 :: "byte list" where "magic_8B64 = [0x38, 0x42, 0x36, 0x34]"
definition key_luni :: "byte list" where "key_luni = [0x6C, 0x75, 0x6E, 0x69]"
definition key_TySh :: "byte list" where "key_TySh = [0x54, 0x79, 0x53, 0x68]"

section \<open>Streams\<close>

text \<open>
  An input stream is its bytes, the get position and the fail state.  Once the fail state
  is set, \<^verbatim>\<open>read\<close> and \<^verbatim>\<open>seekg\<close> do nothing and \<^verbatim>\<open>tellg\<close> answers \<open>-1\<close>; the code never
  clears it.  \<open>seek_past_end\<close> tells the two kinds of stream apart: a file stream may be
  positioned beyond its last byte, a string stream fails instead.
\<close>

record istream =
  content :: "byte list"
  gpos :: nat
  failbit :: bool
  seek_past_end :: bool

text \<open>
  \<^verbatim>\<open>stream.read(dst, n)\<close>: the bytes that are there are stored at the start of the \<open>n\<close>
  bytes of the destination, whose previous bytes \<open>old\<close> stay where nothing was stored;
  fewer than \<open>n\<close> bytes set the fail state.
\<close>

definition stream_read :: "nat \<Rightarrow> byte list \<Rightarrow> istream \<Rightarrow> byte list \<times> istream" where
  "stream_read n old f =
     (if failbit f then (old, f)
      else let got = take n (drop (gpos f) (content f))
           in (got @ take (n - length got) (drop (length got) old),
               f\<lparr>gpos := gpos f + length got, failbit := length got < n\<rparr>))"

definition tellg :: "istream \<Rightarrow> int" where
  "tellg f = (if failbit f then - 1 else int (gpos f))"

text \<open>\<^verbatim>\<open>seekg(n, std::ios::cur)\<close> and \<^verbatim>\<open>seekg(0)\<close>.\<close>

definition seekg_cur :: "nat \<Rightarrow> istream \<Rightarrow> istream" where
  "seekg_cur n f =
     (if failbit f then f
      else if gpos f + n \<le> length (content f) \<or> seek_past_end f then f\<lparr>gpos := gpos f + n\<rparr>
      else f\<lparr>failbit := True\<rparr>)"

definition seekg_start :: "istream \<Rightarrow> istream" where
  "seekg_start f = (if failbit f then f else f\<lparr>gpos := 0\<rparr>)"

text \<open>Reading one scalar: a byte, a \<^verbatim>\<open>be<uint16_t>\<close>, a \<^verbatim>\<open>be<uint32_t>\<close>.  \<open>old\<close> is what the
  variable held before.\<close>

definition read_u8 :: "byte \<Rightarrow> istream \<Rightarrow> byte \<times> istream" where
  "read_u8 old f =
     (let (bs, f') = stream_read 1 [old] f
      in (case bs of [] \<Rightarrow> old | b # _ \<Rightarrow> b, f'))"

definition read_be16 :: "16 word \<Rightarrow> istream \<Rightarrow> 16 word \<times> istream" where
  "read_be16 old f = (let (bs, f') = stream_read 2 (be16_bytes old) f in (be_decode bs, f'))"

definition read_be32 :: "32 word \<Rightarrow> istream \<Rightarrow> 32 word \<times> istream" where
  "read_be32 old f = (let (bs, f') = stream_read 4 (be32_bytes old) f in (be_decode bs, f'))"

text \<open>\<^verbatim>\<open>v.resize(n)\<close> on a vector or string of bytes: cut, or filled up with zero bytes.\<close>

definition resize :: "nat \<Rightarrow> byte list \<Rightarrow> byte list" where
  "resize n xs = take n xs @ replicate (n - length xs) 0"

text \<open>An output stream is the bytes written so far; every write appends.\<close>

type_synonym ostream = "byte list"

definition stream_write :: "byte list \<Rightarrow> ostream \<Rightarrow> ostream" where
  "stream_write bs out = out @ bs"

definition tellp :: "ostream \<Rightarrow> int" where
  "tellp out = int (length out)"

section \<open>Values the source leaves open\<close>

text \<open>
  A local variable declared without an initial value and then filled by \<^verbatim>\<open>read\<close> keeps an
  indeterminate value when the stream has failed, and \<^verbatim>\<open>name_size\<close> of \<^verbatim>\<open>Layer::write\<close> is
  never assigned at all.  The same holds for the scalar members of an object declared
  without arguments (\<^verbatim>\<open>ImageResourceBlock b;\<close>, \<^verbatim>\<open>ExtraData ed;\<close>, \<^verbatim>\<open>Layer l;\<close>), whose
  initial values \<^verbatim>\<open>psd.cpp\<close> does not show; its vectors and strings start empty.  The model
  takes these values as an argument, one field for each such variable (the fields
  \<open>new_\<dots>\<close> for the members), the same at every use, so that every theorem holds
  whatever they are.
\<close>

record indeterminate =
  irb_read_length :: byte
  irb_read_buffer_length :: "32 word"
  read_color_mode_count :: "32 word"
  read_image_resources_length :: "32 word"
  blending_ranges_read_size :: "32 word"
  layer_read_buffer :: "16 word \<times> 32 word"
  layer_read_name_size :: byte
  layer_write_name_size :: byte
  layer_info_read_length :: "32 word"
  read_layers_and_masks_length :: "32 word"
  new_irb_signature :: "byte list"
  new_irb_id :: "byte list"
  new_ed_signature :: "byte list"
  new_ed_key :: "byte list"
  new_ed_length :: "32 word"
  new_layer_head :: "byte list"
  new_layer_blend :: "byte list"
  new_mask_length :: "32 word"
  new_mask_rect :: "byte list"
  new_has_text :: bool

section \<open>Image resource blocks\<close>

text \<open>
  Fields that the code reads and writes as raw memory (\<^verbatim>\<open>(char*)&field\<close>) are kept as
  the bytes they hold: four for a signature or a key, two for the resource id.
\<close>

record ImageResourceBlock =
  irb_signature :: "byte list"
  image_resource_id :: "byte list"
  irb_name :: "byte list"
  irb_buffer :: "byte list"

definition padded_size :: "32 word \<Rightarrow> 32 word \<Rightarrow> 32 word" where
  "padded_size padding sz = (sz + padding - 1) div padding * padding"

definition ImageResourceBlock_size :: "ImageResourceBlock \<Rightarrow> 32 word" where
  "ImageResourceBlock_size b =
     4 + 2 +
     padded_size 2 (1 + of_nat (length (irb_name b))) +
     4 +
     padded_size 2 (of_nat (length (irb_buffer b)))"

text \<open>
  \<^verbatim>\<open>PSD_DEBUG\<close> is defined at the head of \<^verbatim>\<open>psd.cpp\<close>, so the comparison of the bytes
  consumed or produced with \<^verbatim>\<open>size()\<close> is part of \<^verbatim>\<open>read\<close> and of \<^verbatim>\<open>write\<close>; the printing
  is left out.  The difference of two stream positions is a signed 64-bit number and
  \<^verbatim>\<open>size()\<close> a \<^verbatim>\<open>uint32_t\<close>: they are compared as integers.
\<close>

definition ImageResourceBlock_read ::
  "indeterminate \<Rightarrow> ImageResourceBlock \<Rightarrow> istream \<Rightarrow> bool \<times> ImageResourceBlock \<times> istream" where
  "ImageResourceBlock_read u b f =
     (let start_pos = tellg f;
          (sig, f1) = stream_read 4 (irb_signature b) f;
          b1 = b\<lparr>irb_signature := sig\<rparr>
      in if sig \<noteq> magic_8BIM then (False, b1, f1)
         else
           let (rid, f2) = stream_read 2 (image_resource_id b1) f1;
               b2 = b1\<lparr>image_resource_id := rid\<rparr>;
               (len, f3) = read_u8 (irb_read_length u) f2;
               (nm, f4) = stream_read (unat len) (resize (unat len) (irb_name b2)) f3;
               b3 = b2\<lparr>irb_name := nm\<rparr>;
               f5 = (if len mod 2 = 0 then seekg_cur 1 f4 else f4);
               (buffer_length, f6) = read_be32 (irb_read_buffer_length u) f5;
               (buf, f7) = stream_read (unat buffer_length)
                             (resize (unat buffer_length) (irb_buffer b3)) f6;
               b4 = b3\<lparr>irb_buffer := buf\<rparr>;
               f8 = (if buffer_length mod 2 = 1 then seekg_cur 1 f7 else f7)
           in if tellg f8 - start_pos \<noteq> uint (ImageResourceBlock_size b4) then (False, b4, f8)
              else (True, b4, f8))"

definition ImageResourceBlock_write :: "ImageResourceBlock \<Rightarrow> ostream \<Rightarrow> bool \<times> ostream" where
  "ImageResourceBlock_write b out =
     (let start_pos = tellp out;
          o1 = stream_write magic_8BIM out;
          o2 = stream_write (image_resource_id b) o1;
          padding = 0;
          len = (of_nat (length (irb_name b)) :: byte);
          o3 = stream_write [len] o2;
          o4 = stream_write (irb_name b) o3;
          o5 = (if len mod 2 = 0 then stream_write [padding] o4 else o4);
          buffer_length = (of_nat (length (irb_buffer b)) :: 32 word);
          o6 = stream_write (be32_bytes buffer_length) o5;
          o7 = stream_write (irb_buffer b) o6;
          o8 = (if length (irb_buffer b) mod 2 = 1 then stream_write [padding] o7 else o7)
      in if tellp o8 - start_pos \<noteq> uint (ImageResourceBlock_size b) then (False, o8)
         else (True, o8))"

text \<open>\<^verbatim>\<open>ImageResourceBlock b;\<close>: the string and the vector start empty.\<close>

definition new_ImageResourceBlock :: "indeterminate \<Rightarrow> ImageResourceBlock" where
  "new_ImageResourceBlock u =
     \<lparr>irb_signature = new_irb_signature u, image_resource_id = new_irb_id u,
      irb_name = [], irb_buffer = []\<rparr>"

section \<open>Extra data blocks\<close>

record ExtraData =
  ed_signature :: "byte list"
  ed_key :: "byte list"
  ed_length :: "32 word"
  ed_data :: "byte list"

definition new_ExtraData :: "indeterminate \<Rightarrow> ExtraData" where
  "new_ExtraData u =
     \<lparr>ed_signature = new_ed_signature u, ed_key = new_ed_key u,
      ed_length = new_ed_length u, ed_data = []\<rparr>"

definition ExtraData_read :: "ExtraData \<Rightarrow> istream \<Rightarrow> bool \<times> ExtraData \<times> istream" where
  "ExtraData_read ed f =
     (let (sig, f1) = stream_read 4 (ed_signature ed) f;
          ed1 = ed\<lparr>ed_signature := sig\<rparr>
      in if sig \<noteq> magic_8BIM \<and> sig \<noteq> magic_8B64 then (False, ed1, f1)
         else
           let (key, f2) = stream_read 4 (ed_key ed1) f1;
               (len, f3) = read_be32 (ed_length ed1) f2;
               (dat, f4) = stream_read (unat len) (resize (unat len) (ed_data ed1)) f3
           in (True, ed1\<lparr>ed_key := key, ed_length := len, ed_data := dat\<rparr>, f4))"

text \<open>\<^verbatim>\<open>write\<close> changes the block it writes: \<^verbatim>\<open>data\<close> is padded and then resized to
  \<^verbatim>\<open>length\<close>.\<close>

definition ExtraData_write :: "ExtraData \<Rightarrow> ostream \<Rightarrow> bool \<times> ExtraData \<times> ostream" where
  "ExtraData_write ed out =
     (let o1 = stream_write (ed_signature ed) out;
          o2 = stream_write (ed_key ed) o1;
          data1 = (if length (ed_data ed) mod 2 = 1 then ed_data ed @ [0] else ed_data ed);
          o3 = stream_write (be32_bytes (ed_length ed)) o2;
          data2 = resize (unat (ed_length ed)) data1;
          o4 = stream_write data2 o3
      in (True, ed\<lparr>ed_data := data2\<rparr>, o4))"

subsection \<open>The Unicode layer name\<close>

text \<open>
  \<^verbatim>\<open>wchar_t\<close> is taken as on Linux, 32 bits and signed; every value stored by
  \<^verbatim>\<open>luni_read_name\<close> is a 16-bit unit, so the width does not show in its result.
\<close>

type_synonym wchar = "32 word"

text \<open>The body of the loop over \<^verbatim>\<open>wname\<close>: the bytes appended for one \<^verbatim>\<open>wc\<close>.\<close>

definition utf8_of_wchar :: "wchar \<Rightarrow> byte list" where
  "utf8_of_wchar wc =
     (if wc <s 0x80 then [ucast wc]
      else if wc <s 0x800 then
        [ucast (0xC0 + (signed_drop_bit 6 wc AND 0x1F)),
         ucast (0x80 + (wc AND 0x3F))]
      else
        [ucast (0xE0 + (signed_drop_bit 12 wc AND 0x0F)),
         ucast (0x80 + (signed_drop_bit 6 wc AND 0x3F)),
         ucast (0x80 + (wc AND 0x3F))])"

text \<open>
  \<^verbatim>\<open>p+4+i*2\<close> with \<^verbatim>\<open>i\<close> a \<^verbatim>\<open>uint32_t\<close>: the product is taken in 32 bits.  The function
  reads \<^verbatim>\<open>data\<close> through a pointer without looking at its size; a read outside the
  payload has no defined result, which is \<open>None\<close> here.  Both output parameters are
  cleared before they are filled, so the result does not depend on what they held.
\<close>

definition luni_unit_offset :: "nat \<Rightarrow> nat" where
  "luni_unit_offset i = 4 + unat ((of_nat i :: 32 word) * 2)"

definition luni_read_name :: "ExtraData \<Rightarrow> (wchar list \<times> byte list) option" where
  "luni_read_name ed =
     (let p = ed_data ed
      in if length p < 4 then None
         else
           let uni_length = (be_decode (take 4 p) :: 32 word)
           in if \<exists>i \<in> set [0..<unat uni_length]. length p < luni_unit_offset i + 2 then None
              else
                let wname = map (\<lambda>i. ucast (be_decode (take 2 (drop (luni_unit_offset i) p)) :: 16 word))
                              [0..<unat uni_length];
                    utf8name = concat (map utf8_of_wchar wname)
                in Some (wname, utf8name))"

section \<open>Layer masks and blending ranges\<close>

text \<open>\<open>lm_rect\<close> is the 18 bytes from \<^verbatim>\<open>top\<close> on that are read and written in one piece.\<close>

record LayerMask =
  lm_length :: "32 word"
  lm_rect :: "byte list"
  additional_data :: "byte list"

definition LayerMask_read :: "LayerMask \<Rightarrow> istream \<Rightarrow> bool \<times> LayerMask \<times> istream" where
  "LayerMask_read m f =
     (let (len, f1) = read_be32 (lm_length m) f;
          m1 = m\<lparr>lm_length := len\<rparr>
      in if len \<noteq> 0 then
           let (rect, f2) = stream_read (4*4+2) (lm_rect m1) f1;
               remaining = len - (4*4+2);
               (ad, f3) = stream_read (unat remaining)
                            (resize (unat remaining) (additional_data m1)) f2
           in (True, m1\<lparr>lm_rect := rect, additional_data := ad\<rparr>, f3)
         else (True, m1, f1))"

definition LayerMask_write :: "LayerMask \<Rightarrow> ostream \<Rightarrow> bool \<times> LayerMask \<times> ostream" where
  "LayerMask_write m out =
     (let o1 = stream_write (be32_bytes (lm_length m)) out
      in if lm_length m \<noteq> 0 then
           let o2 = stream_write (lm_rect m) o1;
               remaining = lm_length m - (4*4+2);
               ad = resize (unat remaining) (additional_data m);
               o3 = stream_write ad o2
           in (True, m\<lparr>additional_data := ad\<rparr>, o3)
         else (True, m, o1))"

record LayerBlendingRanges =
  br_data :: "byte list"

definition LayerBlendingRanges_read ::
  "indeterminate \<Rightarrow> LayerBlendingRanges \<Rightarrow> istream \<Rightarrow> bool \<times> LayerBlendingRanges \<times> istream" where
  "LayerBlendingRanges_read u r f =
     (let (sz, f1) = read_be32 (blending_ranges_read_size u) f;
          (dat, f2) = stream_read (unat sz) (resize (unat sz) (br_data r)) f1
      in (True, r\<lparr>br_data := dat\<rparr>, f2))"

definition LayerBlendingRanges_write ::
  "LayerBlendingRanges \<Rightarrow> ostream \<Rightarrow> bool \<times> ostream" where
  "LayerBlendingRanges_write r out =
     (let sz = (of_nat (length (br_data r)) :: 32 word);
          o1 = stream_write (be32_bytes sz) out;
          o2 = stream_write (take (unat sz) (br_data r)) o1
      in (True, o2))"


section \<open>Layer records\<close>

text \<open>
  \<open>head\<close> is the 18 bytes read in one piece from \<^verbatim>\<open>top\<close> on (\<^verbatim>\<open>top\<close>, \<^verbatim>\<open>left\<close>,
  \<^verbatim>\<open>bottom\<close>, \<^verbatim>\<open>right\<close>, \<^verbatim>\<open>num_channels\<close>), \<open>blend\<close> the 16 bytes from \<^verbatim>\<open>blend_signature\<close> on
  (signature, blend mode key, opacity, clipping, flags, filler, \<^verbatim>\<open>extra_data_length\<close>).
  The members \<^verbatim>\<open>mask\<close> and \<^verbatim>\<open>name\<close> are \<open>layer_mask\<close> and \<open>layer_name\<close> here.
\<close>

record Layer =
  head :: "byte list"
  channel_infos :: "(16 word \<times> 32 word) list"
  blend :: "byte list"
  layer_mask :: LayerMask
  blending_ranges :: LayerBlendingRanges
  layer_name :: "byte list"
  wname :: "wchar list"
  utf8name :: "byte list"
  additional_extra_data :: "ExtraData list"
  has_text :: bool

text \<open>Modelled from the spec: where the fields lie in the two pieces (sections 3 and 4.4:
  rectangle, then the channel count; blend signature first, extra-data length last), all
  of them big-endian.\<close>

definition num_channels :: "Layer \<Rightarrow> 16 word" where
  "num_channels l = be_decode (take 2 (drop 16 (head l)))"

definition set_num_channels :: "16 word \<Rightarrow> Layer \<Rightarrow> Layer" where
  "set_num_channels v l = l\<lparr>head := take 16 (head l) @ be16_bytes v @ drop 18 (head l)\<rparr>"

definition blend_signature :: "Layer \<Rightarrow> byte list" where
  "blend_signature l = take 4 (blend l)"

definition extra_data_length :: "Layer \<Rightarrow> 32 word" where
  "extra_data_length l = be_decode (take 4 (drop 12 (blend l)))"

definition set_extra_data_length :: "32 word \<Rightarrow> Layer \<Rightarrow> Layer" where
  "set_extra_data_length v l = l\<lparr>blend := take 12 (blend l) @ be32_bytes v @ drop 16 (blend l)\<rparr>"

definition new_Layer :: "indeterminate \<Rightarrow> Layer" where
  "new_Layer u =
     \<lparr>head = new_layer_head u, channel_infos = [], blend = new_layer_blend u,
      layer_mask = \<lparr>lm_length = new_mask_length u, lm_rect = new_mask_rect u, additional_data = []\<rparr>,
      blending_ranges = \<lparr>br_data = []\<rparr>,
      layer_name = [], wname = [], utf8name = [], additional_extra_data = [],
      has_text = new_has_text u\<rparr>"

text \<open>The loop over the channels: \<open>n\<close> rounds, each reading six bytes into \<^verbatim>\<open>buffer\<close>.\<close>

fun read_channel_infos ::
  "indeterminate \<Rightarrow> nat \<Rightarrow> (16 word \<times> 32 word) list \<Rightarrow> istream
     \<Rightarrow> (16 word \<times> 32 word) list \<times> istream" where
  "read_channel_infos u 0 cis f = (cis, f)"
| "read_channel_infos u (Suc n) cis f =
     (let (buffer, f') = stream_read 6
                           (be16_bytes (fst (layer_read_buffer u)) @
                            be32_bytes (snd (layer_read_buffer u))) f
      in read_channel_infos u n
           (cis @ [(be_decode (take 2 buffer), be_decode (take 4 (drop 2 buffer)))]) f')"

text \<open>
  The loop over the extra data blocks.  Nothing bounds it when the stream has failed and
  a new block already passes the signature check, so its result is an option: \<open>None\<close>
  when it does not end.
\<close>

partial_function (option) read_extra_data ::
  "indeterminate \<Rightarrow> int \<Rightarrow> 32 word \<Rightarrow> ExtraData list \<Rightarrow> istream
     \<Rightarrow> (bool \<times> ExtraData list \<times> istream) option" where
  "read_extra_data u extra_start_pos len eds f =
     (if tellg f - extra_start_pos < uint len then
        (case ExtraData_read (new_ExtraData u) f of
           (ok, ed, f') \<Rightarrow>
             if \<not> ok then Some (False, eds, f')
             else read_extra_data u extra_start_pos len (eds @ [ed]) f')
      else Some (True, eds, f))"

declare read_extra_data.simps [code]

text \<open>The scan over the blocks that were read; \<open>None\<close> when \<^verbatim>\<open>luni_read_name\<close> has no
  defined result.\<close>

fun scan_extra_data :: "ExtraData list \<Rightarrow> Layer \<Rightarrow> Layer option" where
  "scan_extra_data [] l = Some l"
| "scan_extra_data (ed # eds) l =
     (if ed_key ed = key_luni then
        (case luni_read_name ed of
           None \<Rightarrow> None
         | Some (w, n) \<Rightarrow> scan_extra_data eds (l\<lparr>wname := w, utf8name := n\<rparr>))
      else if ed_key ed = key_TySh then scan_extra_data eds (l\<lparr>has_text := True\<rparr>)
      else scan_extra_data eds l)"

text \<open>\<^verbatim>\<open>(wchar_t)c\<close> for a \<^verbatim>\<open>char\<close>, taken as signed.\<close>

definition wchar_of_char :: "byte \<Rightarrow> wchar" where
  "wchar_of_char c = scast c"

definition Layer_read ::
  "indeterminate \<Rightarrow> Layer \<Rightarrow> istream \<Rightarrow> (bool \<times> Layer \<times> istream) option" where
  "Layer_read u l f =
     (let (hd, f1) = stream_read (4*4+2) (head l) f;
          l1 = l\<lparr>head := hd\<rparr>;
          (cis, f2) = read_channel_infos u (unat (num_channels l1)) (channel_infos l1) f1;
          l2 = l1\<lparr>channel_infos := cis\<rparr>;
          (bl, f3) = stream_read (4*3+4) (blend l2) f2;
          l3 = l2\<lparr>blend := bl\<rparr>
      in if magic_8BIM \<noteq> blend_signature l3 then Some (False, l3, f3)
         else
           let extra_start_pos = tellg f3;
               (ok_mask, m, f4) = LayerMask_read (layer_mask l3) f3;
               l4 = l3\<lparr>layer_mask := m\<rparr>
           in if \<not> ok_mask then Some (False, l4, f4)
              else
                let (ok_ranges, r, f5) = LayerBlendingRanges_read u (blending_ranges l4) f4;
                    l5 = l4\<lparr>blending_ranges := r\<rparr>
                in if \<not> ok_ranges then Some (False, l5, f5)
                   else
                     let (name_size, f6) = read_u8 (layer_read_name_size u) f5;
                         (nm, f7) = stream_read (unat name_size)
                                      (resize (unat name_size) (layer_name l5)) f6;
                         f8 = (if name_size mod 4 = 0 then seekg_cur 3 f7
                               else if name_size mod 4 = 1 then seekg_cur 2 f7
                               else if name_size mod 4 = 2 then seekg_cur 1 f7
                               else f7);
                         l6 = l5\<lparr>layer_name := nm, wname := wname l5 @ map wchar_of_char nm,
                                 utf8name := nm\<rparr>
                     in (case read_extra_data u extra_start_pos (extra_data_length l6)
                                (additional_extra_data l6) f8 of
                           None \<Rightarrow> None
                         | Some (ok, eds, f9) \<Rightarrow>
                             let l7 = l6\<lparr>additional_extra_data := eds\<rparr>
                             in if \<not> ok then Some (False, l7, f9)
                                else (case scan_extra_data eds l7 of
                                        None \<Rightarrow> None
                                      | Some l8 \<Rightarrow> Some (True, l8, f9))))"

text \<open>
  The \<^verbatim>\<open>size()\<close> members of the mask, the blending ranges and the extra data blocks are
  declared in \<^verbatim>\<open>psd.h\<close>, which is not at hand; \<^verbatim>\<open>Layer::write\<close> takes them as they are.
  Their sum is stored in the 32 bits of \<^verbatim>\<open>extra_data_length\<close>, so only their values
  modulo \<open>2 ^ 32\<close> matter.
\<close>

record size_members =
  mask_size :: "LayerMask \<Rightarrow> 32 word"
  blending_ranges_size :: "LayerBlendingRanges \<Rightarrow> 32 word"
  extra_data_size :: "ExtraData \<Rightarrow> 32 word"

fun write_channel_infos :: "(16 word \<times> 32 word) list \<Rightarrow> ostream \<Rightarrow> ostream" where
  "write_channel_infos [] out = out"
| "write_channel_infos (ci # cis) out =
     write_channel_infos cis (stream_write (be16_bytes (fst ci) @ be32_bytes (snd ci)) out)"

fun sum_extra_data_sizes :: "size_members \<Rightarrow> ExtraData list \<Rightarrow> 32 word \<Rightarrow> 32 word" where
  "sum_extra_data_sizes sz [] acc = acc"
| "sum_extra_data_sizes sz (ed # eds) acc =
     sum_extra_data_sizes sz eds (acc + extra_data_size sz ed)"

fun write_extra_data :: "ExtraData list \<Rightarrow> ostream \<Rightarrow> ExtraData list \<times> ostream" where
  "write_extra_data [] out = ([], out)"
| "write_extra_data (ed # eds) out =
     (let (ok, ed', o1) = ExtraData_write ed out;
          (eds', o2) = write_extra_data eds o1
      in (ed' # eds', o2))"

text \<open>\<^verbatim>\<open>name_size\<close> is declared and never assigned: its value is the indeterminate
  \<open>layer_write_name_size\<close>.\<close>

definition Layer_write ::
  "size_members \<Rightarrow> indeterminate \<Rightarrow> Layer \<Rightarrow> ostream \<Rightarrow> bool \<times> Layer \<times> ostream" where
  "Layer_write sz u l out =
     (let l1 = set_num_channels (of_nat (length (channel_infos l))) l;
          o1 = stream_write (head l1) out;
          o2 = write_channel_infos (channel_infos l1) o1;
          l2 = set_extra_data_length
                 (sum_extra_data_sizes sz (additional_extra_data l1)
                    (mask_size sz (layer_mask l1) + blending_ranges_size sz (blending_ranges l1))) l1;
          o3 = stream_write (blend l2) o2;
          (ok_mask, m, o4) = LayerMask_write (layer_mask l2) o3;
          l3 = l2\<lparr>layer_mask := m\<rparr>
      in if \<not> ok_mask then (False, l3, o4)
         else
           let (ok_ranges, o5) = LayerBlendingRanges_write (blending_ranges l3) o4
           in if \<not> ok_ranges then (False, l3, o5)
              else
                let name_size = layer_write_name_size u;
                    o6 = stream_write [name_size] o5;
                    nm = resize (unat name_size) (layer_name l3);
                    l4 = l3\<lparr>layer_name := nm\<rparr>;
                    o7 = stream_write nm o6;
                    o8 = (if name_size mod 4 = 0 then stream_write [0, 0, 0] o7
                          else if name_size mod 4 = 1 then stream_write [0, 0] o7
                          else if name_size mod 4 = 2 then stream_write [0] o7
                          else o7);
                    (eds, o9) = write_extra_data (additional_extra_data l4) o8
                in (True, l4\<lparr>additional_extra_data := eds\<rparr>, o9))"

section \<open>The layer info section\<close>

record LayerInfo =
  num_layers :: "16 word"
  has_merged_alpha_channel :: bool
  layers :: "Layer list"

text \<open>The loop over the layers, \<open>n\<close> rounds at most; \<open>None\<close> when a \<^verbatim>\<open>Layer::read\<close> has no
  result.\<close>

fun read_layers ::
  "indeterminate \<Rightarrow> nat \<Rightarrow> Layer list \<Rightarrow> istream \<Rightarrow> (bool \<times> Layer list \<times> istream) option" where
  "read_layers u 0 ls f = Some (True, ls, f)"
| "read_layers u (Suc n) ls f =
     (case Layer_read u (new_Layer u) f of
        None \<Rightarrow> None
      | Some (ok, l, f') \<Rightarrow>
          if \<not> ok then Some (False, ls, f')
          else read_layers u n (ls @ [l]) f')"

text \<open>
  \<^verbatim>\<open>LayerInfo::read\<close> up to its loop: the length, the count and its sign.  \<^verbatim>\<open>num_layers\<close>
  is a signed 16-bit field, and \<^verbatim>\<open>-num_layers\<close> is stored back in 16 bits.
\<close>

definition read_layer_count ::
  "indeterminate \<Rightarrow> LayerInfo \<Rightarrow> istream \<Rightarrow> LayerInfo \<times> istream" where
  "read_layer_count u li f =
     (let (len, f1) = read_be32 (layer_info_read_length u) f;
          (n, f2) = read_be16 (num_layers li) f1;
          li1 = li\<lparr>num_layers := n\<rparr>;
          li2 = (if num_layers li1 <s 0
                 then li1\<lparr>num_layers := - num_layers li1, has_merged_alpha_channel := True\<rparr>
                 else li1)
      in (li2, f2))"

text \<open>
  The whole of \<^verbatim>\<open>LayerInfo::read\<close>.  The bound of \<^verbatim>\<open>i < num_layers\<close>, with \<^verbatim>\<open>i\<close> a
  \<^verbatim>\<open>uint32_t\<close>, is the field sign-extended and read as unsigned.
\<close>

definition LayerInfo_read ::
  "indeterminate \<Rightarrow> LayerInfo \<Rightarrow> istream \<Rightarrow> (bool \<times> LayerInfo \<times> istream) option" where
  "LayerInfo_read u li f =
     (let (li2, f2) = read_layer_count u li f
      in (case read_layers u (unat (scast (num_layers li2) :: 32 word)) (layers li2) f2 of
            None \<Rightarrow> None
          | Some (ok, ls, f3) \<Rightarrow> Some (ok, li2\<lparr>layers := ls\<rparr>, f3)))"

text \<open>\<^verbatim>\<open>assert(false)\<close>: the call ends the program and does not return.\<close>

datatype 'a outcome = Assertion_failed | Returned 'a

definition LayerInfo_write :: "LayerInfo \<Rightarrow> ostream \<Rightarrow> (bool \<times> ostream) outcome" where
  "LayerInfo_write li out = Assertion_failed"

section \<open>The document\<close>

text \<open>Modelled from the spec: the header is 26 bytes, the signature its first four and the
  big-endian version the next two (section 6).\<close>

definition sizeof_header :: nat where
  "sizeof_header = 26"

definition header_signature :: "byte list \<Rightarrow> byte list" where
  "header_signature h = take 4 h"

definition header_version :: "byte list \<Rightarrow> 16 word" where
  "header_version h = be_decode (take 2 (drop 4 h))"

record psd =
  header :: "byte list"
  image_resources :: "ImageResourceBlock list"
  layer_info :: LayerInfo
  valid :: bool

definition read_header :: "psd \<Rightarrow> istream \<Rightarrow> bool \<times> psd \<times> istream" where
  "read_header d f =
     (let f1 = seekg_start f;
          (h, f2) = stream_read sizeof_header (header d) f1;
          d1 = d\<lparr>header := h\<rparr>
      in if header_signature (header d1) \<noteq> magic_8BPS then (False, d1, f2)
         else if header_version (header d1) \<noteq> 1 then (False, d1, f2)
         else (True, d1, f2))"

text \<open>\<^verbatim>\<open>count\<close> is compared with 0 only, so the order of its bytes does not matter.\<close>

definition read_color_mode :: "indeterminate \<Rightarrow> psd \<Rightarrow> istream \<Rightarrow> bool \<times> psd \<times> istream" where
  "read_color_mode u d f =
     (let (count, f1) = read_be32 (read_color_mode_count u) f
      in if count \<noteq> 0 then (False, d, f1) else (True, d, f1))"

partial_function (option) read_resource_blocks ::
  "indeterminate \<Rightarrow> int \<Rightarrow> 32 word \<Rightarrow> ImageResourceBlock list \<Rightarrow> istream
     \<Rightarrow> (bool \<times> ImageResourceBlock list \<times> istream) option" where
  "read_resource_blocks u start_pos len bs f =
     (if tellg f - start_pos < uint len then
        (case ImageResourceBlock_read u (new_ImageResourceBlock u) f of
           (ok, b, f') \<Rightarrow>
             if \<not> ok then Some (False, bs, f')
             else read_resource_blocks u start_pos len (bs @ [b]) f')
      else Some (True, bs, f))"

declare read_resource_blocks.simps [code]

definition read_image_resources ::
  "indeterminate \<Rightarrow> psd \<Rightarrow> istream \<Rightarrow> (bool \<times> psd \<times> istream) option" where
  "read_image_resources u d f =
     (let (len, f1) = read_be32 (read_image_resources_length u) f;
          start_pos = tellg f1;
          d1 = d\<lparr>image_resources := []\<rparr>
      in (case read_resource_blocks u start_pos len (image_resources d1) f1 of
            None \<Rightarrow> None
          | Some (ok, bs, f2) \<Rightarrow> Some (ok, d1\<lparr>image_resources := bs\<rparr>, f2)))"

definition read_layers_and_masks ::
  "indeterminate \<Rightarrow> psd \<Rightarrow> istream \<Rightarrow> (bool \<times> psd \<times> istream) option" where
  "read_layers_and_masks u d f =
     (let start_pos = tellg f;
          (len, f1) = read_be32 (read_layers_and_masks_length u) f
      in if len = 0 then Some (True, d, f1)
         else
           (case LayerInfo_read u (layer_info d) f1 of
              None \<Rightarrow> None
            | Some (ok, li, f2) \<Rightarrow>
                let d1 = d\<lparr>layer_info := li\<rparr>
                in if \<not> ok then Some (False, d1, f2)
                   else if tellg f2 - start_pos < uint len then
                     let remaining = uint len - (tellg f2 - start_pos);
                         (additional_layer_data, f3) =
                            stream_read (nat remaining) (replicate (nat remaining) 0) f2
                     in Some (True, d1, f3)
                   else Some (True, d1, f2)))"

definition load :: "indeterminate \<Rightarrow> psd \<Rightarrow> istream \<Rightarrow> (bool \<times> psd \<times> istream) option" where
  "load u d f =
     (case read_header d f of
        (ok_header, d1, f1) \<Rightarrow>
          if \<not> ok_header then Some (False, d1, f1)
          else
            (case read_color_mode u d1 f1 of
               (ok_color, d2, f2) \<Rightarrow>
                 if \<not> ok_color then Some (False, d2, f2)
                 else
                   (case read_image_resources u d2 f2 of
                      None \<Rightarrow> None
                    | Some (ok_resources, d3, f3) \<Rightarrow>
                        if \<not> ok_resources then Some (False, d3, f3)
                        else
                          (case read_layers_and_masks u d3 f3 of
                             None \<Rightarrow> None
                           | Some (ok_layers, d4, f4) \<Rightarrow>
                               if \<not> ok_layers then Some (False, d4, f4)
                               else Some (True, d4\<lparr>valid := True\<rparr>, f4)))))"

definition operator_bool :: "psd \<Rightarrow> bool" where
  "operator_bool d = valid d"


section \<open>Concrete inputs\<close>

text \<open>A freshly opened string stream over the given bytes.\<close>

definition in_stream :: "byte list \<Rightarrow> istream" where
  "in_stream bs = \<lparr>content = bs, gpos = 0, failbit = False, seek_past_end = False\<rparr>"

text \<open>One choice of the indeterminate values: every one of them zero.\<close>

definition zeroed :: indeterminate where
  "zeroed =
     \<lparr>irb_read_length = 0, irb_read_buffer_length = 0, read_color_mode_count = 0,
      read_image_resources_length = 0, blending_ranges_read_size = 0,
      layer_read_buffer = (0, 0), layer_read_name_size = 0, layer_write_name_size = 0,
      layer_info_read_length = 0, read_layers_and_masks_length = 0,
      new_irb_signature = [0, 0, 0, 0], new_irb_id = [0, 0],
      new_ed_signature = [0, 0, 0, 0], new_ed_key = [0, 0, 0, 0], new_ed_length = 0,
      new_layer_head = replicate 18 0, new_layer_blend = replicate 16 0,
      new_mask_length = 0, new_mask_rect = replicate 18 0, new_has_text = False\<rparr>"

definition new_LayerMask :: LayerMask where
  "new_LayerMask = \<lparr>lm_length = 0, lm_rect = replicate 18 0, additional_data = []\<rparr>"

definition new_LayerInfo :: LayerInfo where
  "new_LayerInfo = \<lparr>num_layers = 0, has_merged_alpha_channel = False, layers = []\<rparr>"

definition new_psd :: psd where
  "new_psd =
     \<lparr>header = replicate 26 0, image_resources = [], layer_info = new_LayerInfo, valid = False\<rparr>"

text \<open>The smallest document that loads: a header (one channel-less 1 by 1 image) and three
  empty sections.  Two damaged copies: a wrong first byte, and version 2.\<close>

definition minimal_header :: "byte list" where
  "minimal_header =
     magic_8BPS @ [0, 1, 0, 0, 0, 0, 0, 0, 0, 0, 0, 0, 0, 1, 0, 0, 0, 1, 0, 8, 0, 3]"

definition minimal_document :: "byte list" where
  "minimal_document = minimal_header @ [0, 0, 0, 0, 0, 0, 0, 0, 0, 0, 0, 0]"

definition corrupt_document :: "byte list" where
  "corrupt_document = minimal_document[0 := 0x39]"

definition version2_document :: "byte list" where
  "version2_document = minimal_document[5 := 2]"

definition loaded_psd :: psd where
  "loaded_psd = new_psd\<lparr>header := minimal_header, valid := True\<rparr>"

text \<open>
  The layout of an image resource block as section 4.2 of the specification words it:
  signature, resource id, the length byte and the name, one padding byte if the name
  length is even, the big-endian payload length and the payload, one padding byte if the
  payload length is odd.  \<open>p1\<close> and \<open>p2\<close> are the two padding bytes.
\<close>

definition irb_layout :: "byte list \<Rightarrow> byte list \<Rightarrow> byte \<Rightarrow> byte list \<Rightarrow> byte \<Rightarrow> byte list" where
  "irb_layout rid nm p1 buf p2 =
     magic_8BIM @ rid @ [of_nat (length nm)] @ nm @ (if even (length nm) then [p1] else []) @
     be32_bytes (of_nat (length buf)) @ buf @ (if odd (length buf) then [p2] else [])"

text \<open>
  The transcoding rule of section 4.5 of the specification, for one UTF-16 code unit:
  below \<^verbatim>\<open>0x80\<close> one byte as it is, below \<^verbatim>\<open>0x800\<close> the two bytes
  \<^verbatim>\<open>110xxxxx 10xxxxxx\<close>, otherwise the three bytes \<^verbatim>\<open>1110xxxx 10xxxxxx 10xxxxxx\<close>;
  and the code units of a payload: a big-endian count in the first four bytes, then that
  many big-endian 2-byte units.
\<close>

definition utf8_unit_spec :: "16 word \<Rightarrow> byte list" where
  "utf8_unit_spec c =
     (if c < 0x80 then [ucast c]
      else if c < 0x800 then
        [0xC0 OR (ucast (drop_bit 6 c) AND 0x1F), 0x80 OR (ucast c AND 0x3F)]
      else
        [0xE0 OR (ucast (drop_bit 12 c) AND 0x0F),
         0x80 OR (ucast (drop_bit 6 c) AND 0x3F),
         0x80 OR (ucast c AND 0x3F)])"

definition luni_units_spec :: "byte list \<Rightarrow> 16 word list" where
  "luni_units_spec p =
     map (\<lambda>i. be_decode (take 2 (drop (4 + 2 * i) p)))
       [0..<unat (be_decode (take 4 p) :: 32 word)]"

text \<open>A \<^verbatim>\<open>luni\<close> block with the given payload.\<close>

definition luni_block :: "byte list \<Rightarrow> ExtraData" where
  "luni_block p =
     \<lparr>ed_signature = magic_8BIM, ed_key = key_luni, ed_length = of_nat (length p), ed_data = p\<rparr>"

text \<open>
  A layer record as \<^verbatim>\<open>Layer::read\<close> consumes it: an empty rectangle and no channels, the
  blend block with the signature, the key \<^verbatim>\<open>norm\<close> and the extra-data length 12, an empty
  mask, empty blending ranges and the name \<^verbatim>\<open>abc\<close>; and the layer read from it.
\<close>

definition example_layer_bytes :: "byte list" where
  "example_layer_bytes =
     [0, 0, 0, 0, 0, 0, 0, 0, 0, 0, 0, 1, 0, 0, 0, 1, 0, 0] @
     magic_8BIM @ [0x6E, 0x6F, 0x72, 0x6D, 255, 0, 0, 0, 0, 0, 0, 12] @
     [0, 0, 0, 0] @ [0, 0, 0, 0] @ [3, 0x61, 0x62, 0x63]"

definition example_layer :: Layer where
  "example_layer =
     \<lparr>head = [0, 0, 0, 0, 0, 0, 0, 0, 0, 0, 0, 1, 0, 0, 0, 1, 0, 0],
      channel_infos = [],
      blend = magic_8BIM @ [0x6E, 0x6F, 0x72, 0x6D, 255, 0, 0, 0, 0, 0, 0, 12],
      layer_mask = new_LayerMask,
      blending_ranges = \<lparr>br_data = []\<rparr>,
      layer_name = [0x61, 0x62, 0x63], wname = [0x61, 0x62, 0x63], utf8name = [0x61, 0x62, 0x63],
      additional_extra_data = [], has_text = False\<rparr>"

text \<open>An extra data block with a payload of one byte, as \<^verbatim>\<open>ExtraData::read\<close> yields it.\<close>

definition example_extra_data :: ExtraData where
  "example_extra_data =
     \<lparr>ed_signature = magic_8BIM, ed_key = key_TySh, ed_length = 1, ed_data = [0x41]\<rparr>"

section \<open>Properties of the stream operations\<close>

lemma length_resize: "length (resize n xs) = n"
  by (simp add: resize_def)

lemma length_stream_read:
  "length old = n \<Longrightarrow> length (fst (stream_read n old f)) = n"
  by (auto simp: stream_read_def Let_def)

lemma length_be32_bytes: "length (be32_bytes w) = 4"
  by (simp add: be32_bytes_def)

lemma length_be16_bytes: "length (be16_bytes w) = 2"
  by (simp add: be16_bytes_def)

lemma stream_read_ok:
  assumes "\<not> failbit f" "gpos f + n \<le> length (content f)"
  shows "stream_read n old f = (take n (drop (gpos f) (content f)), f\<lparr>gpos := gpos f + n\<rparr>)"
proof -
  have "length (take n (drop (gpos f) (content f))) = n" using assms by simp
  moreover have "f\<lparr>gpos := gpos f + n, failbit := False\<rparr> = f\<lparr>gpos := gpos f + n\<rparr>"
    using assms(1) by (cases f) simp
  ultimately show ?thesis using assms by (simp add: stream_read_def Let_def)
qed

lemma read_be32_ok:
  assumes "\<not> failbit f" "gpos f + 4 \<le> length (content f)"
  shows "read_be32 old f = (be_decode (take 4 (drop (gpos f) (content f))), f\<lparr>gpos := gpos f + 4\<rparr>)"
  using stream_read_ok [OF assms, of "be32_bytes old"]
  by (simp add: read_be32_def)

section \<open>Writing a layer info section\<close>

text \<open>
  C8.  Every call of \<^verbatim>\<open>LayerInfo::write\<close>, whatever the section holds and whatever was
  written before, stops at the failed assertion: it never returns, so no call completes
  as a successful write.
\<close>

theorem LayerInfo_write_aborts:
  "LayerInfo_write li out = Assertion_failed \<and> (\<forall>r. LayerInfo_write li out \<noteq> Returned r)"
  by (simp add: LayerInfo_write_def)

section \<open>The tail of a layer mask\<close>

text \<open>
  C10.  \<^verbatim>\<open>LayerMask::read\<close> returns true on every mask and every stream.  When the
  declared length \<open>L\<close> it has stored is not zero, the additional data has \<open>L - 18\<close> bytes, the
  difference taken in 32 bits: for \<open>0 < L < 18\<close> that is \<open>2 ^ 32 - 18 + L\<close> bytes and no error.
  On a good stream with four bytes left, \<open>L\<close> is the big-endian value of these four bytes.
\<close>

theorem LayerMask_read_tail:
  "fst (LayerMask_read m f) = True \<and>
   (\<forall>m' f'. LayerMask_read m f = (True, m', f') \<and> lm_length m' \<noteq> 0 \<longrightarrow>
      length (additional_data m') = unat (lm_length m' - 18) \<and>
      (lm_length m' < 18 \<longrightarrow> length (additional_data m') = 2 ^ 32 - 18 + unat (lm_length m'))) \<and>
   (\<not> failbit f \<and> gpos f + 4 \<le> length (content f) \<longrightarrow>
      lm_length (fst (snd (LayerMask_read m f))) = be_decode (take 4 (drop (gpos f) (content f))))"
proof (intro conjI allI impI)
  show "fst (LayerMask_read m f) = True"
    by (simp add: LayerMask_read_def Let_def split: prod.splits)
next
  fix m' f'
  assume a: "LayerMask_read m f = (True, m', f') \<and> lm_length m' \<noteq> 0"
  then show len: "length (additional_data m') = unat (lm_length m' - 18)"
    using length_stream_read [OF length_resize]
    apply (auto simp: LayerMask_read_def Let_def split: prod.splits if_splits)
    by (metis fst_conv)
  assume "lm_length m' < 18"
  then have "unat (lm_length m' - 18) = 2 ^ 32 - 18 + unat (lm_length m')"
    by (simp add: unat_sub_if_size word_less_nat_alt word_size)
  with len show "length (additional_data m') = 2 ^ 32 - 18 + unat (lm_length m')" by simp
next
  assume "\<not> failbit f \<and> gpos f + 4 \<le> length (content f)"
  then show "lm_length (fst (snd (LayerMask_read m f))) = be_decode (take 4 (drop (gpos f) (content f)))"
    by (simp add: LayerMask_read_def Let_def read_be32_ok split: prod.splits)
qed

theorem LayerMask_read_tail_witness:
  "fst (LayerMask_read new_LayerMask (in_stream [0, 0, 0, 5])) = True \<and>
   lm_length (fst (snd (LayerMask_read new_LayerMask (in_stream [0, 0, 0, 5])))) = 5 \<and>
   length (additional_data (fst (snd (LayerMask_read new_LayerMask (in_stream [0, 0, 0, 5]))))) =
     4294967283"
proof -
  let ?r = "LayerMask_read new_LayerMask (in_stream [0, 0, 0, 5])"
  note t = LayerMask_read_tail [of new_LayerMask "in_stream [0, 0, 0, 5]"]
  have ok: "fst ?r = True" using t by blast
  have "\<not> failbit (in_stream [0, 0, 0, 5]) \<and>
        gpos (in_stream [0, 0, 0, 5]) + 4 \<le> length (content (in_stream [0, 0, 0, 5]))"
    by (simp add: in_stream_def)
  with t have "lm_length (fst (snd ?r)) =
      be_decode (take 4 (drop (gpos (in_stream [0, 0, 0, 5])) (content (in_stream [0, 0, 0, 5]))))"
    by blast
  also have "\<dots> = 5" by (simp add: in_stream_def be_decode_def)
  finally have len: "lm_length (fst (snd ?r)) = 5" .
  have "?r = (True, fst (snd ?r), snd (snd ?r))" using ok by (metis prod.collapse)
  moreover have "lm_length (fst (snd ?r)) \<noteq> 0" "lm_length (fst (snd ?r)) < 18"
    using len by simp_all
  ultimately have "length (additional_data (fst (snd ?r))) = 2 ^ 32 - 18 + unat (lm_length (fst (snd ?r)))"
    using t by blast
  then show ?thesis using ok len by simp
qed

section \<open>Loading a document\<close>

lemma read_header_valid: "read_header d f = (ok, d', f') \<Longrightarrow> valid d' = valid d"
  by (auto simp: read_header_def Let_def split: prod.splits if_splits)

lemma read_color_mode_valid: "read_color_mode u d f = (ok, d', f') \<Longrightarrow> valid d' = valid d"
  by (auto simp: read_color_mode_def Let_def split: prod.splits if_splits)

lemma read_image_resources_valid:
  "read_image_resources u d f = Some (ok, d', f') \<Longrightarrow> valid d' = valid d"
  by (auto simp: read_image_resources_def Let_def split: prod.splits option.splits)

lemma read_layers_and_masks_valid:
  "read_layers_and_masks u d f = Some (ok, d', f') \<Longrightarrow> valid d' = valid d"
  by (auto simp: read_layers_and_masks_def Let_def split: prod.splits option.splits if_splits)

text \<open>
  C3 (as amended).  A call of \<^verbatim>\<open>load\<close> that returns leaves the validity flag true exactly
  when the flag was true before or the call returned true; it returns true exactly when
  \<^verbatim>\<open>read_header\<close>, \<^verbatim>\<open>read_color_mode\<close>, \<^verbatim>\<open>read_image_resources\<close> and
  \<^verbatim>\<open>read_layers_and_masks\<close> have succeeded one after the other, each on the state and the
  stream the one before left.  A failing call leaves the flag as it was.  The boolean
  conversion of the document is the flag.
\<close>

theorem load_valid_flag:
  assumes "load u d f = Some (ok, d', f')"
  shows "valid d' = (valid d \<or> ok) \<and>
         operator_bool d' = valid d' \<and>
         (ok \<longleftrightarrow>
            (\<exists>d1 f1 d2 f2 d3 f3 d4.
               read_header d f = (True, d1, f1) \<and>
               read_color_mode u d1 f1 = (True, d2, f2) \<and>
               read_image_resources u d2 f2 = Some (True, d3, f3) \<and>
               read_layers_and_masks u d3 f3 = Some (True, d4, f') \<and>
               d' = d4\<lparr>valid := True\<rparr>))"
proof -
  obtain ok1 d1 f1 where h: "read_header d f = (ok1, d1, f1)"
    by (metis prod_cases3)
  obtain ok2 d2 f2 where c: "read_color_mode u d1 f1 = (ok2, d2, f2)"
    by (metis prod_cases3)
  note v1 = read_header_valid [OF h] and v2 = read_color_mode_valid [OF c]
  show ?thesis
  proof (cases "ok1 \<and> ok2")
    case False
    then show ?thesis using assms h c v1 v2
      by (auto simp: load_def operator_bool_def split: if_splits)
  next
    case True
    show ?thesis
    proof (cases "read_image_resources u d2 f2")
      case None
      then show ?thesis using assms h c True by (simp add: load_def)
    next
      case (Some r)
      then obtain ok3 d3 f3 where r: "read_image_resources u d2 f2 = Some (ok3, d3, f3)"
        by (metis prod_cases3)
      note v3 = read_image_resources_valid [OF r]
      show ?thesis
      proof (cases ok3)
        case False
        then show ?thesis using assms h c True r v1 v2 v3
          by (auto simp: load_def operator_bool_def)
      next
        case ok3: True
        show ?thesis
        proof (cases "read_layers_and_masks u d3 f3")
          case None
          then show ?thesis using assms h c True r ok3 by (simp add: load_def)
        next
          case (Some q)
          then obtain ok4 d4 f4 where q: "read_layers_and_masks u d3 f3 = Some (ok4, d4, f4)"
            by (metis prod_cases3)
          note v4 = read_layers_and_masks_valid [OF q]
          show ?thesis using assms h c True r ok3 q v1 v2 v3 v4
            by (auto simp: load_def operator_bool_def split: if_splits)
        qed
      qed
    qed
  qed
qed

theorem load_valid_flag_witness:
  "load zeroed new_psd (in_stream minimal_document) =
     Some (True, loaded_psd, (in_stream minimal_document)\<lparr>gpos := 38\<rparr>) \<and>
   valid loaded_psd = (valid new_psd \<or> True) \<and> operator_bool loaded_psd"
proof -
  have l: "load zeroed new_psd (in_stream minimal_document) =
             Some (True, loaded_psd, (in_stream minimal_document)\<lparr>gpos := 38\<rparr>)"
    by code_simp
  show ?thesis using load_valid_flag [OF l] l by simp
qed

text \<open>
  C3 as stated fails: after a load that succeeds, a load of a document with a damaged
  signature returns false and the flag is still true.
\<close>

theorem load_valid_stays_counterexample:
  "load zeroed new_psd (in_stream minimal_document) =
     Some (True, loaded_psd, (in_stream minimal_document)\<lparr>gpos := 38\<rparr>) \<and>
   load zeroed loaded_psd (in_stream corrupt_document) =
     Some (False, loaded_psd\<lparr>header := take 26 corrupt_document\<rparr>,
           (in_stream corrupt_document)\<lparr>gpos := 26\<rparr>) \<and>
   valid (loaded_psd\<lparr>header := take 26 corrupt_document\<rparr>) \<and>
   operator_bool (loaded_psd\<lparr>header := take 26 corrupt_document\<rparr>)"
  by code_simp

lemma read_header_prefix:
  assumes "\<not> failbit f" "k \<le> length (content f)" "k \<le> sizeof_header"
  shows "take k (header (fst (snd (read_header d f)))) = take k (content f)"
  using assms
  by (auto simp: read_header_def seekg_start_def stream_read_def Let_def min_def)

text \<open>
  C5.  On a stream in good state whose first four bytes are not \<^verbatim>\<open>8BPS\<close>, and on one
  that starts with \<^verbatim>\<open>8BPS\<close> and whose version field is not 1, \<^verbatim>\<open>read_header\<close> returns
  false and \<^verbatim>\<open>load\<close> returns false with the document and the stream exactly as
  \<^verbatim>\<open>read_header\<close> left them: no later stage has run, and no byte beyond the header has
  been consumed.
\<close>

theorem load_rejects_header:
  assumes "\<not> failbit f"
    and "(4 \<le> length (content f) \<and> take 4 (content f) \<noteq> magic_8BPS) \<or>
         (6 \<le> length (content f) \<and> take 4 (content f) = magic_8BPS \<and>
          be_decode (take 2 (drop 4 (content f))) \<noteq> (1 :: 16 word))"
  shows "fst (read_header d f) = False \<and>
         load u d f = Some (read_header d f) \<and>
         gpos (snd (snd (read_header d f))) \<le> sizeof_header"
proof -
  obtain ok d1 f1 where h: "read_header d f = (ok, d1, f1)"
    by (metis prod_cases3)
  have sig: "header_signature (header d1) = take 4 (content f)" if "4 \<le> length (content f)"
    using read_header_prefix [OF assms(1) that, of d] h
    by (simp add: header_signature_def sizeof_header_def)
  have ver: "header_version (header d1) = be_decode (take 2 (drop 4 (content f)))"
    if "6 \<le> length (content f)"
  proof -
    have "take 6 (header d1) = take 6 (content f)"
      using read_header_prefix [OF assms(1) that, of d] h by (simp add: sizeof_header_def)
    then have "take 2 (drop 4 (take 6 (header d1))) = take 2 (drop 4 (take 6 (content f)))"
      by simp
    then have "take 2 (drop 4 (header d1)) = take 2 (drop 4 (content f))"
      by (simp add: drop_take)
    then show ?thesis by (simp add: header_version_def)
  qed
  have d1: "d1 = fst (snd (read_header d f))" using h by simp
  have "\<not> ok"
    using assms(2) h sig ver
    by (auto simp: read_header_def Let_def d1 split: prod.splits if_splits)
  moreover have "gpos f1 \<le> sizeof_header"
    using h assms(1)
    by (auto simp: read_header_def seekg_start_def stream_read_def Let_def split: if_splits)
  ultimately show ?thesis using h by (simp add: load_def)
qed

theorem load_rejects_header_witness:
  "fst (read_header new_psd (in_stream corrupt_document)) = False \<and>
   load zeroed new_psd (in_stream corrupt_document) =
     Some (read_header new_psd (in_stream corrupt_document)) \<and>
   fst (read_header new_psd (in_stream version2_document)) = False \<and>
   load zeroed new_psd (in_stream version2_document) =
     Some (read_header new_psd (in_stream version2_document))"
proof -
  have a: "\<not> failbit (in_stream corrupt_document)" "\<not> failbit (in_stream version2_document)"
    by (simp_all add: in_stream_def)
  have b: "4 \<le> length (content (in_stream corrupt_document)) \<and>
           take 4 (content (in_stream corrupt_document)) \<noteq> magic_8BPS"
    by code_simp
  have c: "6 \<le> length (content (in_stream version2_document)) \<and>
           take 4 (content (in_stream version2_document)) = magic_8BPS \<and>
           be_decode (take 2 (drop 4 (content (in_stream version2_document)))) \<noteq> (1 :: 16 word)"
    by code_simp
  show ?thesis
    using load_rejects_header [OF a(1) disjI1 [OF b], of new_psd zeroed]
          load_rejects_header [OF a(2) disjI2 [OF c], of new_psd zeroed]
    by simp
qed

section \<open>The layer count\<close>

lemma read_be16_ok:
  assumes "\<not> failbit f" "gpos f + 2 \<le> length (content f)"
  shows "read_be16 old f = (be_decode (take 2 (drop (gpos f) (content f))), f\<lparr>gpos := gpos f + 2\<rparr>)"
  using stream_read_ok [OF assms, of "be16_bytes old"]
  by (simp add: read_be16_def)

lemma sint_neg16:
  fixes c :: "16 word"
  assumes "sint c < 0" "sint c \<noteq> - 32768"
  shows "sint (- c) = - sint c"
proof -
  have "- 32768 \<le> sint c" using sint_ge [of c] by simp
  then have "- (2 ^ 15) \<le> - sint c \<and> - sint c < 2 ^ 15" using assms by simp
  then have "signed_take_bit 15 (- sint c) = - sint c"
    by (simp add: signed_take_bit_int_eq_self)
  then show ?thesis by (simp add: sint_word_ariths)
qed

lemma neg_min16:
  fixes c :: "16 word"
  assumes "sint c = - 32768"
  shows "- c = c"
proof -
  have "sint (- c) = signed_take_bit 15 (- sint c)" by (simp add: sint_word_ariths)
  also have "\<dots> = - 32768" using assms by simp
  finally have "sint (- c) = sint c" using assms by simp
  then show ?thesis by (rule signed_word_eqI)
qed

lemma read_layers_pos:
  "0 < n \<Longrightarrow> read_layers u n ls f =
     (case Layer_read u (new_Layer u) f of
        None \<Rightarrow> None
      | Some (ok, l, f') \<Rightarrow>
          if \<not> ok then Some (False, ls, f')
          else read_layers u (n - 1) (ls @ [l]) f')"
  by (cases n) (auto split: option.splits)

lemma read_layer_count_good:
  assumes "\<not> failbit f" and "gpos f + 6 \<le> length (content f)"
    and "c = be_decode (take 2 (drop (gpos f + 4) (content f)))"
  shows "read_layer_count u li f =
     ((if c <s 0 then li\<lparr>num_layers := - c, has_merged_alpha_channel := True\<rparr>
      else li\<lparr>num_layers := c\<rparr>), f\<lparr>gpos := gpos f + 6\<rparr>)"
proof -
  have r1: "read_be32 (layer_info_read_length u) f =
              (be_decode (take 4 (drop (gpos f) (content f))), f\<lparr>gpos := gpos f + 4\<rparr>)"
    using assms(1,2) by (simp add: read_be32_ok)
  have r2: "read_be16 (num_layers li) (f\<lparr>gpos := gpos f + 4\<rparr>) =
              (c, f\<lparr>gpos := gpos f + 6\<rparr>)"
    using assms read_be16_ok [of "f\<lparr>gpos := gpos f + 4\<rparr>" "num_layers li"]
    by (simp add: add.commute)
  show ?thesis
    unfolding read_layer_count_def r1 prod.case Let_def r2
    by simp
qed


text \<open>
  C9 (as amended).  On a good stream that holds the six bytes of the length and the layer
  count \<open>c\<close>, \<^verbatim>\<open>LayerInfo::read\<close> has consumed these six bytes when it enters its loop, and
  has stored: for a negative \<open>c\<close> other than \<open>-32768\<close>, the absolute value of \<open>c\<close> in
  \<^verbatim>\<open>num_layers\<close> and true in \<^verbatim>\<open>has_merged_alpha_channel\<close>; for \<open>c = -32768\<close>, whose absolute
  value does not fit the 16-bit field, \<open>c\<close> itself and true; for \<open>c\<close> not negative, \<open>c\<close>
  itself, with the flag left as it was.  Whatever the call returns keeps both fields so.
\<close>

theorem LayerInfo_read_count:
  assumes "\<not> failbit f" and "gpos f + 6 \<le> length (content f)"
    and "c = be_decode (take 2 (drop (gpos f + 4) (content f)))"
  shows "\<exists>li2 f2. read_layer_count u li f = (li2, f2) \<and>
           \<not> failbit f2 \<and> gpos f2 = gpos f + 6 \<and>
           (sint c < 0 \<and> sint c \<noteq> - 32768 \<longrightarrow>
              sint (num_layers li2) = \<bar>sint c\<bar> \<and> has_merged_alpha_channel li2) \<and>
           (sint c = - 32768 \<longrightarrow> num_layers li2 = c \<and> has_merged_alpha_channel li2) \<and>
           (0 \<le> sint c \<longrightarrow>
              num_layers li2 = c \<and> has_merged_alpha_channel li2 = has_merged_alpha_channel li) \<and>
           (\<forall>ok li' f'. LayerInfo_read u li f = Some (ok, li', f') \<longrightarrow>
              num_layers li' = num_layers li2 \<and>
              has_merged_alpha_channel li' = has_merged_alpha_channel li2)"
proof -
  define li2 where "li2 =
     (if c <s 0 then li\<lparr>num_layers := - c, has_merged_alpha_channel := True\<rparr>
      else li\<lparr>num_layers := c\<rparr>)"
  define f2 where "f2 = f\<lparr>gpos := gpos f + 6\<rparr>"
  have rc: "read_layer_count u li f = (li2, f2)"
    unfolding li2_def f2_def using assms by (rule read_layer_count_good)
  have keep: "num_layers li' = num_layers li2 \<and>
              has_merged_alpha_channel li' = has_merged_alpha_channel li2"
    if "LayerInfo_read u li f = Some (ok, li', f')" for ok li' f'
  proof -
    from that obtain ls where "li' = li2\<lparr>layers := ls\<rparr>"
      unfolding LayerInfo_read_def rc prod.case Let_def
      by (auto split: option.splits)
    then show ?thesis by simp
  qed
  have neg: "sint (num_layers li2) = \<bar>sint c\<bar> \<and> has_merged_alpha_channel li2"
    if "sint c < 0" "sint c \<noteq> - 32768"
    using that sint_neg16 [of c] by (simp add: li2_def word_sless_alt)
  have min: "num_layers li2 = c \<and> has_merged_alpha_channel li2" if "sint c = - 32768"
    using that neg_min16 [of c] by (simp add: li2_def word_sless_alt)
  have pos: "num_layers li2 = c \<and> has_merged_alpha_channel li2 = has_merged_alpha_channel li"
    if "0 \<le> sint c"
    using that by (simp add: li2_def word_sless_alt)
  have st: "\<not> failbit f2 \<and> gpos f2 = gpos f + 6"
    using assms(1) by (simp add: f2_def)
  show ?thesis
    using rc st neg min pos keep by blast
qed

text \<open>The count \<open>-3\<close>, followed by nothing: the first \<^verbatim>\<open>Layer::read\<close> fails, and the section
  holds the count 3 and the flag.\<close>

theorem LayerInfo_read_count_witness:
  "LayerInfo_read zeroed new_LayerInfo (in_stream [0, 0, 0, 0, 0xFF, 0xFD]) =
     Some (False, new_LayerInfo\<lparr>num_layers := 3, has_merged_alpha_channel := True\<rparr>,
           (in_stream [0, 0, 0, 0, 0xFF, 0xFD])\<lparr>gpos := 6, failbit := True\<rparr>) \<and>
   sint (be_decode (take 2 (drop 4 [0, 0, 0, 0, 0xFF, 0xFD :: byte])) :: 16 word) = - 3 \<and>
   sint (num_layers (fst (read_layer_count zeroed new_LayerInfo
                            (in_stream [0, 0, 0, 0, 0xFF, 0xFD])))) = 3 \<and>
   has_merged_alpha_channel (fst (read_layer_count zeroed new_LayerInfo
                                    (in_stream [0, 0, 0, 0, 0xFF, 0xFD])))"
proof -
  let ?f = "in_stream [0, 0, 0, 0, 0xFF, 0xFD]"
  have l: "LayerInfo_read zeroed new_LayerInfo ?f =
     Some (False, new_LayerInfo\<lparr>num_layers := 3, has_merged_alpha_channel := True\<rparr>,
           ?f\<lparr>gpos := 6, failbit := True\<rparr>)"
    by code_simp
  have g: "\<not> failbit ?f" "gpos ?f + 6 \<le> length (content ?f)"
    by (simp_all add: in_stream_def)
  have c: "sint (be_decode (take 2 (drop 4 [0, 0, 0, 0, 0xFF, 0xFD :: byte])) :: 16 word) = - 3"
    by (simp add: be_decode_def)
  have e: "(be_decode (take 2 (drop 4 [0, 0, 0, 0, 0xFF, 0xFD :: byte])) :: 16 word) =
          be_decode (take 2 (drop (gpos ?f + 4) (content ?f)))"
    by (simp add: in_stream_def)
  from LayerInfo_read_count [OF g e, of zeroed new_LayerInfo] c l show ?thesis by auto
qed

text \<open>
  C9 as stated fails at the count \<open>-32768\<close>: the field keeps \<open>-32768\<close>, which is not the
  absolute value 32768.
\<close>

theorem LayerInfo_read_min_count_counterexample:
  "LayerInfo_read zeroed new_LayerInfo (in_stream [0, 0, 0, 0, 0x80, 0]) =
     Some (False, new_LayerInfo\<lparr>num_layers := 0x8000, has_merged_alpha_channel := True\<rparr>,
           (in_stream [0, 0, 0, 0, 0x80, 0])\<lparr>gpos := 6, failbit := True\<rparr>) \<and>
   sint (be_decode [0x80, 0] :: 16 word) = - 32768 \<and>
   sint (num_layers (new_LayerInfo\<lparr>num_layers := 0x8000, has_merged_alpha_channel := True\<rparr>)) =
     - 32768"
proof -
  let ?f = "in_stream [0, 0, 0, 0, 0x80, 0]"
  have a: "read_be32 (layer_info_read_length zeroed) ?f = (0, ?f\<lparr>gpos := 4\<rparr>)"
    by code_simp
  have b: "read_be16 (num_layers new_LayerInfo) (?f\<lparr>gpos := 4\<rparr>) = (0x8000, ?f\<lparr>gpos := 6\<rparr>)"
    by code_simp
  have c: "(0x8000 :: 16 word) <s 0"
    by (simp add: word_sless_alt)
  have d: "unat (scast (- (0x8000 :: 16 word)) :: 32 word) = 4294934528"
    by simp
  have e: "Layer_read zeroed (new_Layer zeroed) (?f\<lparr>gpos := 6\<rparr>) =
             Some (False, new_Layer zeroed, ?f\<lparr>gpos := 6, failbit := True\<rparr>)"
    by code_simp
  have "LayerInfo_read zeroed new_LayerInfo ?f =
     Some (False, new_LayerInfo\<lparr>num_layers := 0x8000, has_merged_alpha_channel := True\<rparr>,
           ?f\<lparr>gpos := 6, failbit := True\<rparr>)"
    apply (simp add: LayerInfo_read_def read_layer_count_def a b c d del: read_layers.simps)
    apply (subst read_layers_pos)
     apply simp
    apply (simp add: e del: read_layers.simps)
    done
  then show ?thesis by (simp add: be_decode_def)
qed

section \<open>Image resource blocks: layout, round trip and padding\<close>

lemma read_step:
  assumes "\<not> failbit f" "drop (gpos f) (content f) = xs @ r" "n = length xs"
  shows "stream_read n old f = (xs, f\<lparr>gpos := gpos f + n\<rparr>)"
    and "\<not> failbit (f\<lparr>gpos := gpos f + n\<rparr>)"
    and "drop (gpos (f\<lparr>gpos := gpos f + n\<rparr>)) (content (f\<lparr>gpos := gpos f + n\<rparr>)) = r"
proof -
  have t: "take n (drop (gpos f) (content f)) = xs" using assms by simp
  have "f\<lparr>gpos := gpos f + n, failbit := False\<rparr> = f\<lparr>gpos := gpos f + n\<rparr>"
    using assms(1) by (cases f) simp
  then show "stream_read n old f = (xs, f\<lparr>gpos := gpos f + n\<rparr>)"
    using assms t by (simp add: stream_read_def Let_def)
  show "\<not> failbit (f\<lparr>gpos := gpos f + n\<rparr>)" using assms(1) by simp
  have "drop (gpos f + n) (content f) = drop n (drop (gpos f) (content f))"
    by (simp add: add.commute)
  then show "drop (gpos (f\<lparr>gpos := gpos f + n\<rparr>)) (content (f\<lparr>gpos := gpos f + n\<rparr>)) = r"
    using assms by simp
qed

lemma seek_step:
  assumes "\<not> failbit f" "drop (gpos f) (content f) = xs @ r" "n = length xs" "0 < n"
  shows "seekg_cur n f = f\<lparr>gpos := gpos f + n\<rparr>"
proof -
  have "length (drop (gpos f) (content f)) = length xs + length r" using assms(2) by simp
  then have "length (content f) - gpos f = length xs + length r" by simp
  moreover have "0 < length xs" using assms(3,4) by simp
  ultimately have "gpos f + n \<le> length (content f)" using assms(3) by arith
  then show ?thesis using assms(1) by (simp add: seekg_cur_def)
qed

lemma padded_size_2:
  assumes "n + 1 < 2 ^ 32"
  shows "unat (padded_size 2 (of_nat n :: 32 word)) = n + n mod 2"
proof -
  have n: "unat (of_nat n :: 32 word) = n" using assms by (simp add: unat_of_nat)
  have "unat ((of_nat n :: 32 word) + 1) = n + 1"
    using assms n by (simp add: unat_word_ariths)
  then have "unat (((of_nat n :: 32 word) + 1) div 2) = (n + 1) div 2"
    by (simp add: unat_div)
  moreover have "(n + 1) div 2 * 2 < 2 ^ 32" using assms by simp
  ultimately have "unat (((of_nat n :: 32 word) + 1) div 2 * 2) = (n + 1) div 2 * 2"
    by (simp add: unat_word_ariths)
  moreover have "(n + 1) div 2 * 2 = n + n mod 2" by presburger
  ultimately show ?thesis by (simp add: padded_size_def add.commute)
qed

lemma length_irb_layout:
  "length (irb_layout rid nm p1 buf p2) =
     4 + length rid + 1 + length nm + (if even (length nm) then 1 else 0) +
     4 + length buf + (if odd (length buf) then 1 else 0)"
  by (simp add: irb_layout_def magic_8BIM_def length_be32_bytes)

lemma irb_size_layout:
  assumes "length (irb_name b) < 256"
    and "length (irb_layout rid (irb_name b) p1 (irb_buffer b) p2) < 2 ^ 32" "length rid = 2"
  shows "uint (ImageResourceBlock_size b) =
           int (length (irb_layout rid (irb_name b) p1 (irb_buffer b) p2))"
proof -
  let ?n = "length (irb_name b)" and ?m = "length (irb_buffer b)"
  have tot: "4 + 2 + 1 + ?n + (if even ?n then 1 else 0) + 4 + ?m + (if odd ?m then 1 else 0) < 2 ^ 32"
    using assms(2,3) by (simp add: length_irb_layout)
  have a: "unat (padded_size 2 (1 + of_nat ?n :: 32 word)) = Suc ?n + Suc ?n mod 2"
    using padded_size_2 [of "Suc ?n"] assms(1) by simp
  have b: "unat (padded_size 2 (of_nat ?m :: 32 word)) = ?m + ?m mod 2"
    using padded_size_2 [of ?m] tot by (simp split: if_splits)
  have "unat (ImageResourceBlock_size b) =
          (4 + 2 + (Suc ?n + Suc ?n mod 2) + 4 + (?m + ?m mod 2)) mod 2 ^ 32"
    unfolding ImageResourceBlock_size_def
    by (simp add: unat_word_ariths a b mod_simps)
  also have "4 + 2 + (Suc ?n + Suc ?n mod 2) + 4 + (?m + ?m mod 2) =
               4 + 2 + 1 + ?n + (if even ?n then 1 else 0) + 4 + ?m + (if odd ?m then 1 else 0)"
    by (auto simp: odd_iff_mod_2_eq_one even_iff_mod_2_eq_zero mod_Suc)
  finally have "unat (ImageResourceBlock_size b) = length (irb_layout rid (irb_name b) p1 (irb_buffer b) p2)"
    using tot assms(3) by (simp add: length_irb_layout)
  then show ?thesis by (simp add: uint_nat)
qed

lemma be_decode_be32_bytes: "be_decode (be32_bytes w) = (w :: 32 word)"
proof (rule bit_word_eqI)
  fix n
  assume "n < LENGTH(32)"
  then consider "n < 8" | "8 \<le> n" "n < 16" | "16 \<le> n" "n < 24" | "24 \<le> n" "n < 32"
    by fastforce
  then show "bit (be_decode (be32_bytes w) :: 32 word) n = bit w n"
    by cases (auto simp: be_decode_def be32_bytes_def bit_simps)
qed

lemma be_decode_be16_bytes: "be_decode (be16_bytes w) = (w :: 16 word)"
proof (rule bit_word_eqI)
  fix n
  assume "n < LENGTH(16)"
  then consider "n < 8" | "8 \<le> n" "n < 16"
    by fastforce
  then show "bit (be_decode (be16_bytes w) :: 16 word) n = bit w n"
    by cases (auto simp: be_decode_def be16_bytes_def bit_simps)
qed

lemma read_at:
  assumes "\<not> failbit f" "drop (gpos f + k) (content f) = xs @ r" "n = length xs"
  shows "stream_read n old (f\<lparr>gpos := gpos f + k\<rparr>) = (xs, f\<lparr>gpos := gpos f + (k + n)\<rparr>)"
    and "drop (gpos f + (k + n)) (content f) = r"
  using read_step(1) [of "f\<lparr>gpos := gpos f + k\<rparr>" xs r n old]
    read_step(3) [of "f\<lparr>gpos := gpos f + k\<rparr>" xs r n] assms
  by (simp_all add: add.assoc)

lemma seek_at:
  assumes "\<not> failbit f" "drop (gpos f + k) (content f) = xs @ r" "n = length xs" "0 < n"
  shows "seekg_cur n (f\<lparr>gpos := gpos f + k\<rparr>) = f\<lparr>gpos := gpos f + (k + n)\<rparr>"
    and "drop (gpos f + (k + n)) (content f) = r"
proof -
  show "seekg_cur n (f\<lparr>gpos := gpos f + k\<rparr>) = f\<lparr>gpos := gpos f + (k + n)\<rparr>"
    using seek_step [of "f\<lparr>gpos := gpos f + k\<rparr>" xs r n] assms by (simp add: add.assoc)
  have "drop (gpos f + (k + n)) (content f) = drop n (drop (gpos f + k) (content f))"
    by (simp add: add.commute add.left_commute)
  then show "drop (gpos f + (k + n)) (content f) = r" using assms by simp
qed

lemma byte_even_iff: "n < 256 \<Longrightarrow> ((of_nat n :: byte) mod 2 = 0) = even n"
proof -
  assume "n < 256"
  then have "unat (of_nat n :: byte) = n" by (simp add: unat_of_nat)
  then have "unat ((of_nat n :: byte) mod 2) = n mod 2" by (simp add: unat_mod)
  then show ?thesis by (metis even_iff_mod_2_eq_zero unat_eq_0)
qed

lemma word32_odd_iff: "n < 2 ^ 32 \<Longrightarrow> ((of_nat n :: 32 word) mod 2 = 1) = odd n"
proof -
  assume "n < 2 ^ 32"
  then have "unat (of_nat n :: 32 word) = n" by (simp add: unat_of_nat)
  then have "unat ((of_nat n :: 32 word) mod 2) = n mod 2" by (simp add: unat_mod)
  moreover have "((of_nat n :: 32 word) mod 2 = 1) = (unat ((of_nat n :: 32 word) mod 2) = unat (1 :: 32 word))"
    by (simp only: word_unat_eq_iff)
  ultimately show ?thesis by (simp add: odd_iff_mod_2_eq_one)
qed

lemma irb_read_layout_gen:
  assumes good: "\<not> failbit f"
    and here: "drop (gpos f) (content f) = irb_layout rid nm p1 buf p2 @ rest"
    and rid: "length rid = 2" and nm: "length nm < 256" and m: "length buf < 2 ^ 32"
  shows "ImageResourceBlock_read u b f =
           (uint (ImageResourceBlock_size
                    (b\<lparr>irb_signature := magic_8BIM, image_resource_id := rid,
                       irb_name := nm, irb_buffer := buf\<rparr>)) =
              int (length (irb_layout rid nm p1 buf p2)),
            b\<lparr>irb_signature := magic_8BIM, image_resource_id := rid,
              irb_name := nm, irb_buffer := buf\<rparr>,
            f\<lparr>gpos := gpos f + length (irb_layout rid nm p1 buf p2)\<rparr>)"
proof -
  let ?F = "\<lambda>k. f\<lparr>gpos := gpos f + k\<rparr>"
  let ?n = "length nm" and ?m = "length buf"
  define pad1 where "pad1 = (if even ?n then [p1] else [])"
  define pad2 where "pad2 = (if odd ?m then [p2] else [])"
  define k5 where "k5 = 7 + ?n + length pad1"
  define k8 where "k8 = k5 + 4 + ?m + length pad2"
  have un: "unat (of_nat ?n :: byte) = ?n" using nm by (simp add: unat_of_nat)
  have um: "unat (of_nat ?m :: 32 word) = ?m" using m by (simp add: unat_of_nat)
  have f0: "?F 0 = f" by simp
  have d0: "drop (gpos f + 0) (content f) =
      magic_8BIM @ (rid @ [of_nat ?n] @ nm @ pad1 @ be32_bytes (of_nat ?m) @ buf @ pad2 @ rest)"
    using here by (simp add: irb_layout_def pad1_def pad2_def)
  have s1: "stream_read 4 (irb_signature b) f = (magic_8BIM, ?F 4)"
    using read_at(1) [OF good d0, of 4 "irb_signature b"] by (simp add: magic_8BIM_def)
  have d1: "drop (gpos f + 4) (content f) =
      rid @ ([of_nat ?n] @ nm @ pad1 @ be32_bytes (of_nat ?m) @ buf @ pad2 @ rest)"
    using read_at(2) [OF good d0, of 4] by (simp add: magic_8BIM_def)
  have s2: "stream_read 2 old (?F 4) = (rid, ?F 6)" for old
    using read_at(1) [OF good d1, of 2 old] rid by simp
  have d2: "drop (gpos f + 6) (content f) =
      [of_nat ?n] @ (nm @ pad1 @ be32_bytes (of_nat ?m) @ buf @ pad2 @ rest)"
    using read_at(2) [OF good d1, of 2] rid by simp
  have s3: "read_u8 old (?F 6) = (of_nat ?n, ?F 7)" for old
    using read_at(1) [OF good d2, of 1 "[old]"] by (simp add: read_u8_def)
  have d3: "drop (gpos f + 7) (content f) =
      nm @ (pad1 @ be32_bytes (of_nat ?m) @ buf @ pad2 @ rest)"
    using read_at(2) [OF good d2, of 1] by simp
  have s4: "stream_read ?n old (?F 7) = (nm, ?F (7 + ?n))" for old
    using read_at(1) [OF good d3, of ?n old] by simp
  have d4: "drop (gpos f + (7 + ?n)) (content f) =
      pad1 @ (be32_bytes (of_nat ?m) @ buf @ pad2 @ rest)"
    using read_at(2) [OF good d3, of ?n] by simp
  have s5: "(if (of_nat ?n :: byte) mod 2 = 0 then seekg_cur 1 (?F (7 + ?n)) else ?F (7 + ?n)) = ?F k5"
  proof (cases "even ?n")
    case True
    then have "pad1 = [p1]" by (simp add: pad1_def)
    then show ?thesis
      using seek_at(1) [OF good d4, of 1] byte_even_iff [OF nm] True by (simp add: k5_def)
  next
    case False
    then show ?thesis using byte_even_iff [OF nm] by (simp add: k5_def pad1_def)
  qed
  have d5: "drop (gpos f + k5) (content f) = be32_bytes (of_nat ?m) @ (buf @ pad2 @ rest)"
  proof (cases "even ?n")
    case True
    then have "pad1 = [p1]" by (simp add: pad1_def)
    then show ?thesis using seek_at(2) [OF good d4, of 1] by (simp add: k5_def)
  next
    case False
    then show ?thesis using d4 by (simp add: k5_def pad1_def)
  qed
  have s6: "read_be32 old (?F k5) = (of_nat ?m, ?F (k5 + 4))" for old
    using read_at(1) [OF good d5, of 4 "be32_bytes old"]
    by (simp add: read_be32_def length_be32_bytes be_decode_be32_bytes)
  have d6: "drop (gpos f + (k5 + 4)) (content f) = buf @ (pad2 @ rest)"
    using read_at(2) [OF good d5, of 4] by (simp add: length_be32_bytes)
  have s7: "stream_read ?m old (?F (k5 + 4)) = (buf, ?F (k5 + 4 + ?m))" for old
    using read_at(1) [OF good d6, of ?m old] by simp
  have d7: "drop (gpos f + (k5 + 4 + ?m)) (content f) = pad2 @ rest"
    using read_at(2) [OF good d6, of ?m] by simp
  have s8: "(if (of_nat ?m :: 32 word) mod 2 = 1 then seekg_cur 1 (?F (k5 + 4 + ?m))
             else ?F (k5 + 4 + ?m)) = ?F k8"
  proof (cases "odd ?m")
    case True
    then have "pad2 = [p2]" by (simp add: pad2_def)
    then show ?thesis
      using seek_at(1) [OF good d7, of 1] word32_odd_iff [OF m] True by (simp add: k8_def)
  next
    case False
    then show ?thesis using word32_odd_iff [OF m] by (simp add: k8_def pad2_def)
  qed
  have k8: "k8 = length (irb_layout rid nm p1 buf p2)"
    using rid by (simp add: k8_def k5_def pad1_def pad2_def length_irb_layout)
  have tell: "tellg (?F k8) - tellg f = int k8"
    using good by (simp add: tellg_def)
  show ?thesis
    unfolding ImageResourceBlock_read_def Let_def s1 prod.case
    apply (simp only: simp_thms if_False s2 prod.case s3 un s4 s5 s6 um s7 s8)
    apply (auto simp: tell [unfolded k8] k8)
    done
qed

lemma irb_read_layout:
  assumes "\<not> failbit f"
    and "drop (gpos f) (content f) = irb_layout rid nm p1 buf p2 @ rest"
    and "length rid = 2" and "length nm < 256"
    and "length (irb_layout rid nm p1 buf p2) < 2 ^ 32"
  shows "ImageResourceBlock_read u b f =
           (True,
            b\<lparr>irb_signature := magic_8BIM, image_resource_id := rid,
              irb_name := nm, irb_buffer := buf\<rparr>,
            f\<lparr>gpos := gpos f + length (irb_layout rid nm p1 buf p2)\<rparr>)"
proof -
  let ?b = "b\<lparr>irb_signature := magic_8BIM, image_resource_id := rid,
              irb_name := nm, irb_buffer := buf\<rparr>"
  have m: "length buf < 2 ^ 32" using assms(5) by (simp add: length_irb_layout)
  have "uint (ImageResourceBlock_size ?b) = int (length (irb_layout rid nm p1 buf p2))"
    using irb_size_layout [of ?b rid p1 p2] assms(3,4,5) by simp
  then show ?thesis
    using irb_read_layout_gen [OF assms(1,2,3,4) m, of u b] by simp
qed

lemma irb_write_layout:
  assumes "length (irb_name b) < 256" and "length (image_resource_id b) = 2"
    and "length (irb_layout (image_resource_id b) (irb_name b) 0 (irb_buffer b) 0) < 2 ^ 32"
  shows "ImageResourceBlock_write b out =
           (True, out @ irb_layout (image_resource_id b) (irb_name b) 0 (irb_buffer b) 0)"
proof -
  have sz: "uint (ImageResourceBlock_size b) =
              int (length (irb_layout (image_resource_id b) (irb_name b) 0 (irb_buffer b) 0))"
    using irb_size_layout [of b "image_resource_id b" 0 0] assms by simp
  have ev: "((of_nat (length (irb_name b)) :: byte) mod 2 = 0) = even (length (irb_name b))"
    using byte_even_iff [OF assms(1)] .
  have out: "(let o1 = stream_write magic_8BIM out;
          o2 = stream_write (image_resource_id b) o1;
          padding = 0;
          len = (of_nat (length (irb_name b)) :: byte);
          o3 = stream_write [len] o2;
          o4 = stream_write (irb_name b) o3;
          o5 = (if len mod 2 = 0 then stream_write [padding] o4 else o4);
          buffer_length = (of_nat (length (irb_buffer b)) :: 32 word);
          o6 = stream_write (be32_bytes buffer_length) o5;
          o7 = stream_write (irb_buffer b) o6
      in (if length (irb_buffer b) mod 2 = 1 then stream_write [padding] o7 else o7)) =
     out @ irb_layout (image_resource_id b) (irb_name b) 0 (irb_buffer b) 0"
    by (auto simp: Let_def stream_write_def irb_layout_def ev odd_iff_mod_2_eq_one)
  show ?thesis
    using out sz
    by (simp add: ImageResourceBlock_write_def Let_def tellp_def)
qed

text \<open>
  C1 (as amended).  Take a block laid out as in section 4.2, with a two-byte id, a name of
  at most 255 bytes, both padding bytes zero, and fewer than \<open>2 ^ 32\<close> bytes in all.  On a
  good stream positioned at these bytes \<^verbatim>\<open>read\<close> returns true and has consumed exactly the
  bytes of the block; \<^verbatim>\<open>write\<close> of the block it has read returns true and appends exactly
  these bytes; and \<^verbatim>\<open>size()\<close> is their number.
\<close>

theorem irb_roundtrip:
  assumes "length rid = 2" and "length nm < 256"
    and "length (irb_layout rid nm 0 buf 0) < 2 ^ 32"
    and "\<not> failbit f"
    and "drop (gpos f) (content f) = irb_layout rid nm 0 buf 0 @ rest"
  shows "\<exists>b f'. ImageResourceBlock_read u b0 f = (True, b, f') \<and>
           \<not> failbit f' \<and>
           gpos f' = gpos f + length (irb_layout rid nm 0 buf 0) \<and>
           ImageResourceBlock_write b out = (True, out @ irb_layout rid nm 0 buf 0) \<and>
           uint (ImageResourceBlock_size b) = int (length (irb_layout rid nm 0 buf 0))"
proof -
  let ?b = "b0\<lparr>irb_signature := magic_8BIM, image_resource_id := rid,
               irb_name := nm, irb_buffer := buf\<rparr>"
  let ?f = "f\<lparr>gpos := gpos f + length (irb_layout rid nm 0 buf 0)\<rparr>"
  have r: "ImageResourceBlock_read u b0 f = (True, ?b, ?f)"
    using irb_read_layout [OF assms(4,5,1,2,3)] .
  have w: "ImageResourceBlock_write ?b out = (True, out @ irb_layout rid nm 0 buf 0)"
    using irb_write_layout [of ?b out] assms(1,2,3) by simp
  have s: "uint (ImageResourceBlock_size ?b) = int (length (irb_layout rid nm 0 buf 0))"
    using irb_size_layout [of ?b rid 0 0] assms(1,2,3) by simp
  show ?thesis using r w s assms(4) by simp
qed

theorem irb_roundtrip_witness:
  "ImageResourceBlock_read zeroed (new_ImageResourceBlock zeroed)
     (in_stream (irb_layout [3, 0xED] [0x61, 0x62] 0 [1, 2, 3] 0)) =
     (True,
      \<lparr>irb_signature = magic_8BIM, image_resource_id = [3, 0xED], irb_name = [0x61, 0x62],
       irb_buffer = [1, 2, 3]\<rparr>,
      (in_stream (irb_layout [3, 0xED] [0x61, 0x62] 0 [1, 2, 3] 0))\<lparr>gpos := 18\<rparr>) \<and>
   ImageResourceBlock_write
     \<lparr>irb_signature = magic_8BIM, image_resource_id = [3, 0xED], irb_name = [0x61, 0x62],
      irb_buffer = [1, 2, 3]\<rparr> [] =
     (True, irb_layout [3, 0xED] [0x61, 0x62] 0 [1, 2, 3] 0) \<and>
   uint (ImageResourceBlock_size
     \<lparr>irb_signature = magic_8BIM, image_resource_id = [3, 0xED], irb_name = [0x61, 0x62],
      irb_buffer = [1, 2, 3]\<rparr>) = 18"
proof -
  let ?l = "irb_layout [3, 0xED] [0x61, 0x62] 0 [1, 2, 3] 0"
  have a: "length [3, 0xED :: byte] = 2" "length [0x61, 0x62 :: byte] < 256" by simp_all
  have l: "length ?l = 18" by (simp add: length_irb_layout)
  then have b: "length ?l < 2 ^ 32" by simp
  have c: "\<not> failbit (in_stream ?l)" "drop (gpos (in_stream ?l)) (content (in_stream ?l)) = ?l @ []"
    by (simp_all add: in_stream_def)
  have r: "ImageResourceBlock_read zeroed (new_ImageResourceBlock zeroed) (in_stream ?l) =
     (True,
      \<lparr>irb_signature = magic_8BIM, image_resource_id = [3, 0xED], irb_name = [0x61, 0x62],
       irb_buffer = [1, 2, 3]\<rparr>, (in_stream ?l)\<lparr>gpos := 18\<rparr>)"
    by code_simp
  from irb_roundtrip [OF a b c, of zeroed "new_ImageResourceBlock zeroed" "[]"] r l
  show ?thesis by simp
qed

text \<open>
  C6 (as amended).  The padding byte after the name is consumed on read and emitted on
  write exactly when the name length is even (that is, when 1 + name length is odd); the
  padding byte after the payload exactly when the payload length is odd.  Read skips the
  padding bytes whatever they hold, write emits zero bytes.
\<close>

theorem irb_padding_rule:
  assumes "length rid = 2" and "length nm < 256"
    and "length (irb_layout rid nm p1 buf p2) < 2 ^ 32"
    and "\<not> failbit f"
    and "drop (gpos f) (content f) =
           magic_8BIM @ rid @ [of_nat (length nm)] @ nm @
           (if even (length nm) then [p1] else []) @
           be32_bytes (of_nat (length buf)) @ buf @
           (if odd (length buf) then [p2] else []) @ rest"
  shows "(\<exists>b f'. ImageResourceBlock_read u b0 f = (True, b, f') \<and>
            irb_name b = nm \<and> irb_buffer b = buf \<and> \<not> failbit f' \<and>
            gpos f' = gpos f + (4 + 2 + 1 + length nm + (if even (length nm) then 1 else 0) +
                                4 + length buf + (if odd (length buf) then 1 else 0)) \<and>
            drop (gpos f') (content f') = rest) \<and>
         ImageResourceBlock_write
           \<lparr>irb_signature = s, image_resource_id = rid, irb_name = nm, irb_buffer = buf\<rparr> out =
           (True,
            out @ magic_8BIM @ rid @ [of_nat (length nm)] @ nm @
            (if even (length nm) then [0] else []) @
            be32_bytes (of_nat (length buf)) @ buf @
            (if odd (length buf) then [0] else []))"
proof -
  let ?l = "irb_layout rid nm p1 buf p2"
  let ?b = "b0\<lparr>irb_signature := magic_8BIM, image_resource_id := rid,
               irb_name := nm, irb_buffer := buf\<rparr>"
  have here: "drop (gpos f) (content f) = ?l @ rest"
    using assms(5) by (simp add: irb_layout_def)
  have r: "ImageResourceBlock_read u b0 f = (True, ?b, f\<lparr>gpos := gpos f + length ?l\<rparr>)"
    using irb_read_layout [OF assms(4) here assms(1,2,3)] .
  have "drop (gpos f + length ?l) (content f) = drop (length ?l) (drop (gpos f) (content f))"
    by (simp add: add.commute)
  then have d: "drop (gpos f + length ?l) (content f) = rest" using here by simp
  have l0: "length (irb_layout rid nm 0 buf 0) < 2 ^ 32"
    using assms(3) by (simp add: length_irb_layout)
  have w: "ImageResourceBlock_write
             \<lparr>irb_signature = s, image_resource_id = rid, irb_name = nm, irb_buffer = buf\<rparr> out =
             (True, out @ irb_layout rid nm 0 buf 0)"
    using irb_write_layout
            [of "\<lparr>irb_signature = s, image_resource_id = rid, irb_name = nm, irb_buffer = buf\<rparr>" out]
          assms(1,2) l0 by simp
  have len: "length ?l = 4 + 2 + 1 + length nm + (if even (length nm) then 1 else 0) +
                           4 + length buf + (if odd (length buf) then 1 else 0)"
    using assms(1) by (simp add: length_irb_layout)
  have lay: "irb_layout rid nm 0 buf 0 =
               magic_8BIM @ rid @ [of_nat (length nm)] @ nm @
               (if even (length nm) then [0] else []) @
               be32_bytes (of_nat (length buf)) @ buf @
               (if odd (length buf) then [0] else [])"
    by (simp add: irb_layout_def)
  have "irb_name ?b = nm \<and> irb_buffer ?b = buf \<and>
        \<not> failbit (f\<lparr>gpos := gpos f + length ?l\<rparr>) \<and>
        gpos (f\<lparr>gpos := gpos f + length ?l\<rparr>) = gpos f + length ?l \<and>
        drop (gpos (f\<lparr>gpos := gpos f + length ?l\<rparr>))
             (content (f\<lparr>gpos := gpos f + length ?l\<rparr>)) = rest"
    using d assms(4) by simp
  with r have "\<exists>b f'. ImageResourceBlock_read u b0 f = (True, b, f') \<and>
            irb_name b = nm \<and> irb_buffer b = buf \<and> \<not> failbit f' \<and>
            gpos f' = gpos f + length ?l \<and> drop (gpos f') (content f') = rest"
    by blast
  then show ?thesis
    using w unfolding len lay by blast
qed

theorem irb_padding_rule_witness:
  "ImageResourceBlock_read zeroed (new_ImageResourceBlock zeroed)
     (in_stream (magic_8BIM @ [3, 0xED, 2, 0x61, 0x62, 0xAA, 0, 0, 0, 3, 1, 2, 3, 0xBB, 0xCC])) =
     (True,
      \<lparr>irb_signature = magic_8BIM, image_resource_id = [3, 0xED], irb_name = [0x61, 0x62],
       irb_buffer = [1, 2, 3]\<rparr>,
      (in_stream (magic_8BIM @ [3, 0xED, 2, 0x61, 0x62, 0xAA, 0, 0, 0, 3, 1, 2, 3, 0xBB, 0xCC]))
        \<lparr>gpos := 18\<rparr>) \<and>
   ImageResourceBlock_write
     \<lparr>irb_signature = [], image_resource_id = [3, 0xED], irb_name = [0x61, 0x62],
      irb_buffer = [1, 2, 3]\<rparr> [] =
     (True, magic_8BIM @ [3, 0xED, 2, 0x61, 0x62, 0, 0, 0, 0, 3, 1, 2, 3, 0])"
proof -
  let ?c = "magic_8BIM @ [3, 0xED, 2, 0x61, 0x62, 0xAA, 0, 0, 0, 3, 1, 2, 3, 0xBB, 0xCC]"
  have a: "length [3, 0xED :: byte] = 2" "length [0x61, 0x62 :: byte] < 256" by simp_all
  have b: "length (irb_layout [3, 0xED] [0x61, 0x62] 0xAA [1, 2, 3] 0xBB) < 2 ^ 32"
    by (simp add: length_irb_layout)
  have c: "\<not> failbit (in_stream ?c)" by (simp add: in_stream_def)
  have d: "drop (gpos (in_stream ?c)) (content (in_stream ?c)) =
           magic_8BIM @ [3, 0xED] @ [of_nat (length [0x61, 0x62 :: byte])] @ [0x61, 0x62] @
           (if even (length [0x61, 0x62 :: byte]) then [0xAA] else []) @
           be32_bytes (of_nat (length [1, 2, 3 :: byte])) @ [1, 2, 3] @
           (if odd (length [1, 2, 3 :: byte]) then [0xBB] else []) @ [0xCC]"
    by (simp add: in_stream_def be32_bytes_def)
  have r: "ImageResourceBlock_read zeroed (new_ImageResourceBlock zeroed) (in_stream ?c) =
     (True,
      \<lparr>irb_signature = magic_8BIM, image_resource_id = [3, 0xED], irb_name = [0x61, 0x62],
       irb_buffer = [1, 2, 3]\<rparr>, (in_stream ?c)\<lparr>gpos := 18\<rparr>)"
    by code_simp
  from irb_padding_rule [OF a b c d, of zeroed "new_ImageResourceBlock zeroed" "[]" "[]"] r
  show ?thesis by (simp add: be32_bytes_def)
qed

text \<open>
  C6 as stated fails: a name of length 1 (1 + 1 is even) has no padding byte, neither
  read nor written, and a name of length 0 (1 + 0 is odd) has one.
\<close>

theorem irb_padding_counterexample:
  "ImageResourceBlock_read zeroed (new_ImageResourceBlock zeroed)
     (in_stream (magic_8BIM @ [0, 1, 1, 0x61, 0, 0, 0, 0, 0xAA])) =
     (True,
      \<lparr>irb_signature = magic_8BIM, image_resource_id = [0, 1], irb_name = [0x61],
       irb_buffer = []\<rparr>,
      (in_stream (magic_8BIM @ [0, 1, 1, 0x61, 0, 0, 0, 0, 0xAA]))\<lparr>gpos := 12\<rparr>) \<and>
   ImageResourceBlock_write
     \<lparr>irb_signature = magic_8BIM, image_resource_id = [0, 1], irb_name = [0x61],
      irb_buffer = []\<rparr> [] =
     (True, magic_8BIM @ [0, 1, 1, 0x61, 0, 0, 0, 0]) \<and>
   ImageResourceBlock_read zeroed (new_ImageResourceBlock zeroed)
     (in_stream (magic_8BIM @ [0, 1, 0, 0xEE, 0, 0, 0, 0, 0xAA])) =
     (True,
      \<lparr>irb_signature = magic_8BIM, image_resource_id = [0, 1], irb_name = [],
       irb_buffer = []\<rparr>,
      (in_stream (magic_8BIM @ [0, 1, 0, 0xEE, 0, 0, 0, 0, 0xAA]))\<lparr>gpos := 12\<rparr>) \<and>
   ImageResourceBlock_write
     \<lparr>irb_signature = magic_8BIM, image_resource_id = [0, 1], irb_name = [],
      irb_buffer = []\<rparr> [] =
     (True, magic_8BIM @ [0, 1, 0, 0, 0, 0, 0, 0])"
  by code_simp

text \<open>
  C1 as stated fails in two ways.  A block whose padding byte is \<open>0xFF\<close> is read with
  success and written back with the padding byte 0.  And for a payload of
  \<open>2 ^ 32 - 12\<close> bytes under an empty name the block has \<open>2 ^ 32\<close> bytes, \<^verbatim>\<open>size()\<close> wraps
  around to 0, and \<^verbatim>\<open>read\<close> returns false.
\<close>

theorem irb_roundtrip_counterexample:
  "ImageResourceBlock_read zeroed (new_ImageResourceBlock zeroed)
     (in_stream (irb_layout [0, 1] [] 0xFF [] 0)) =
     (True,
      \<lparr>irb_signature = magic_8BIM, image_resource_id = [0, 1], irb_name = [], irb_buffer = []\<rparr>,
      (in_stream (irb_layout [0, 1] [] 0xFF [] 0))\<lparr>gpos := 12\<rparr>) \<and>
   ImageResourceBlock_write
     \<lparr>irb_signature = magic_8BIM, image_resource_id = [0, 1], irb_name = [], irb_buffer = []\<rparr> [] =
     (True, magic_8BIM @ [0, 1, 0, 0, 0, 0, 0, 0]) \<and>
   irb_layout [0, 1] [] 0xFF [] 0 = magic_8BIM @ [0, 1, 0, 0xFF, 0, 0, 0, 0] \<and>
   fst (ImageResourceBlock_read zeroed (new_ImageResourceBlock zeroed)
          (in_stream (irb_layout [0, 1] [] 0 (replicate 4294967284 0) 0))) = False \<and>
   length (irb_layout [0, 1] [] 0 (replicate 4294967284 0) 0) = 2 ^ 32"
proof -
  have a: "ImageResourceBlock_read zeroed (new_ImageResourceBlock zeroed)
     (in_stream (irb_layout [0, 1] [] 0xFF [] 0)) =
     (True,
      \<lparr>irb_signature = magic_8BIM, image_resource_id = [0, 1], irb_name = [], irb_buffer = []\<rparr>,
      (in_stream (irb_layout [0, 1] [] 0xFF [] 0))\<lparr>gpos := 12\<rparr>) \<and>
   ImageResourceBlock_write
     \<lparr>irb_signature = magic_8BIM, image_resource_id = [0, 1], irb_name = [], irb_buffer = []\<rparr> [] =
     (True, magic_8BIM @ [0, 1, 0, 0, 0, 0, 0, 0]) \<and>
   irb_layout [0, 1] [] 0xFF [] 0 = magic_8BIM @ [0, 1, 0, 0xFF, 0, 0, 0, 0]"
    by code_simp
  let ?big = "replicate 4294967284 (0 :: byte)"
  let ?l = "irb_layout [0, 1] [] 0 ?big 0"
  let ?b = "(new_ImageResourceBlock zeroed)\<lparr>irb_signature := magic_8BIM,
              image_resource_id := [0, 1], irb_name := [], irb_buffer := ?big\<rparr>"
  have len: "length ?l = 2 ^ 32" by (simp add: length_irb_layout)
  have sz: "ImageResourceBlock_size ?b = 0"
    by (simp add: ImageResourceBlock_size_def padded_size_def)
  have "ImageResourceBlock_read zeroed (new_ImageResourceBlock zeroed) (in_stream ?l) =
          (uint (ImageResourceBlock_size ?b) = int (length ?l), ?b,
           (in_stream ?l)\<lparr>gpos := gpos (in_stream ?l) + length ?l\<rparr>)"
    by (rule irb_read_layout_gen [where rest = "[]"]) (simp_all add: in_stream_def)
  then have b: "fst (ImageResourceBlock_read zeroed (new_ImageResourceBlock zeroed) (in_stream ?l)) =
          False"
    by (simp only: sz len fst_conv) simp
  show ?thesis using a b len by blast
qed

section \<open>The Unicode layer name\<close>

lemma sint_ucast16: "sint (ucast (c :: 16 word) :: 32 word) = uint c"
proof -
  have "uint c < 65536" using uint_bounded [of c] by simp
  moreover have "(- 2147483648 :: int) \<le> 0" by simp
  then have "- 2147483648 \<le> uint c" by (rule order_trans) (rule uint_nonnegative)
  ultimately have "- (2 ^ 31) \<le> uint c \<and> uint c < 2 ^ 31" by simp
  then have "signed_take_bit 31 (uint c) = uint c"
    by (simp add: signed_take_bit_int_eq_self)
  then show ?thesis by (simp add: signed_ucast_eq)
qed

lemma sless_ucast16:
  "((ucast (c :: 16 word) :: 32 word) <s numeral k) = (uint c < sint (numeral k :: 32 word))"
  by (simp only: word_sless_alt sint_ucast16)

lemma sdrop_ucast16: "signed_drop_bit n (ucast (c :: 16 word) :: 32 word) = drop_bit n (ucast c)"
  by (rule bit_word_eqI) (auto simp: bit_simps dest: bit_imp_le_length)

lemma no_carry:
  fixes a b :: "32 word"
  assumes "a AND b = 0"
  shows "a + b = a OR b"
  by (metis assms bit_and_iff bit_0_eq disjunctive_add bot_apply bot_bool_def)


lemma masks32:
  "(0x1F :: 32 word) = mask 5" "(0x3F :: 32 word) = mask 6" "(0x0F :: 32 word) = mask 4"
  "(0xC0 :: 32 word) = push_bit 6 (mask 2)" "(0x80 :: 32 word) = push_bit 7 (mask 1)"
  "(0xE0 :: 32 word) = push_bit 5 (mask 3)"
  by (simp_all add: mask_eq_exp_minus_1 push_bit_eq_mult)

lemma masks8:
  "(0x1F :: byte) = mask 5" "(0x3F :: byte) = mask 6" "(0x0F :: byte) = mask 4"
  "(0xC0 :: byte) = push_bit 6 (mask 2)" "(0x80 :: byte) = push_bit 7 (mask 1)"
  "(0xE0 :: byte) = push_bit 5 (mask 3)"
  by (simp_all add: mask_eq_exp_minus_1 push_bit_eq_mult)

lemma lead_byte:
  fixes x :: "32 word" and y :: byte
  assumes "\<And>n. n < k \<Longrightarrow> bit y n = bit x n" and "k \<le> p" and "p + j = 8"
  shows "ucast (push_bit p (mask j) + (x AND mask k)) = push_bit p (mask j) OR (y AND mask k)"
proof -
  have "push_bit p (mask j) AND (x AND mask k) = 0"
    using assms(2) by (intro bit_word_eqI) (auto simp: bit_simps)
  then have "push_bit p (mask j) + (x AND mask k) = push_bit p (mask j) OR (x AND mask k)"
    by (rule no_carry)
  moreover have "ucast (push_bit p (mask j) OR (x AND mask k) :: 32 word) =
                   push_bit p (mask j) OR (y AND mask k)"
    using assms by (intro bit_word_eqI) (auto simp: bit_simps)
  ultimately show ?thesis by simp
qed

lemma utf8_bytes:
  fixes c :: "16 word"
  shows "ucast ((0xC0 :: 32 word) + (drop_bit 6 (ucast c) AND 0x1F)) =
           (0xC0 :: byte) OR (ucast (drop_bit 6 c) AND 0x1F)"
    and "ucast ((0x80 :: 32 word) + (ucast c AND 0x3F)) = (0x80 :: byte) OR (ucast c AND 0x3F)"
    and "ucast ((0xE0 :: 32 word) + (drop_bit 12 (ucast c) AND 0x0F)) =
           (0xE0 :: byte) OR (ucast (drop_bit 12 c) AND 0x0F)"
    and "ucast ((0x80 :: 32 word) + (drop_bit 6 (ucast c) AND 0x3F)) =
           (0x80 :: byte) OR (ucast (drop_bit 6 c) AND 0x3F)"
  unfolding masks32 masks8
  by (rule lead_byte; simp add: bit_simps; fail)+

lemma ucast_ucast16: "(ucast (ucast (c :: 16 word) :: 32 word) :: byte) = ucast c"
  by (rule bit_word_eqI) (auto simp: bit_simps)

lemma utf8_of_wchar_ucast: "utf8_of_wchar (ucast c) = utf8_unit_spec c"
proof -
  have a: "((ucast c :: 32 word) <s 0x80) = (c < 0x80)"
    by (simp add: sless_ucast16 word_less_alt)
  have b: "((ucast c :: 32 word) <s 0x800) = (c < 0x800)"
    by (simp add: sless_ucast16 word_less_alt)
  show ?thesis
    unfolding utf8_of_wchar_def utf8_unit_spec_def a b sdrop_ucast16 utf8_bytes ucast_ucast16
    by simp
qed

lemma luni_unit_offset_small:
  assumes "2 * i < 2 ^ 32"
  shows "luni_unit_offset i = 4 + 2 * i"
proof -
  have "i < 2 ^ 32" using assms by simp
  then have "unat (of_nat i :: 32 word) = i" by (simp add: unat_of_nat)
  then have "unat ((of_nat i :: 32 word) * 2) = (i * 2) mod 2 ^ 32"
    by (simp add: unat_word_ariths)
  then show ?thesis using assms by (simp add: luni_unit_offset_def mult.commute)
qed

text \<open>
  C2.  For a payload of fewer than \<open>2 ^ 32\<close> bytes that holds the count and as many
  2-byte units as the count says, \<^verbatim>\<open>luni_read_name\<close> yields the units, read big-endian
  one after the other behind the 4-byte big-endian count, and the concatenation of the
  UTF-8 bytes of each unit taken by itself, one to three bytes a unit by the rule of
  section 4.5.  The payload for U+03A9 gives \<open>CE A9\<close>, the one for U+0041 gives \<open>41\<close>, and
  the surrogate pair \<open>D83D DE00\<close> gives two 3-byte sequences, not one of four bytes.
\<close>

theorem luni_read_name_transcodes:
  assumes "length (ed_data ed) < 2 ^ 32"
    and "4 + 2 * unat (be_decode (take 4 (ed_data ed)) :: 32 word) \<le> length (ed_data ed)"
  shows "luni_read_name ed =
           Some (map ucast (luni_units_spec (ed_data ed)),
                 concat (map utf8_unit_spec (luni_units_spec (ed_data ed)))) \<and>
         luni_read_name (luni_block [0, 0, 0, 1, 0x03, 0xA9]) = Some ([0x3A9], [0xCE, 0xA9]) \<and>
         luni_read_name (luni_block [0, 0, 0, 1, 0x00, 0x41]) = Some ([0x41], [0x41]) \<and>
         luni_read_name (luni_block [0, 0, 0, 2, 0xD8, 0x3D, 0xDE, 0x00]) =
           Some ([0xD83D, 0xDE00], [0xED, 0xA0, 0xBD, 0xED, 0xB8, 0x80])"
proof (intro conjI)
  let ?p = "ed_data ed"
  let ?n = "unat (be_decode (take 4 ?p) :: 32 word)"
  have off: "luni_unit_offset i = 4 + 2 * i" if "i < ?n" for i
    using that assms by (intro luni_unit_offset_small) simp
  have inb: "\<not> (\<exists>i \<in> set [0..<?n]. length ?p < luni_unit_offset i + 2)"
    using assms(2) off by auto
  have w: "map (\<lambda>i. ucast (be_decode (take 2 (drop (luni_unit_offset i) ?p)) :: 16 word)) [0..<?n] =
           (map ucast (luni_units_spec ?p) :: wchar list)"
    unfolding luni_units_spec_def map_map
    by (rule map_cong) (simp_all add: off)
  have u: "concat (map utf8_of_wchar (map ucast (luni_units_spec ?p))) =
           concat (map utf8_unit_spec (luni_units_spec ?p))"
    by (simp add: utf8_of_wchar_ucast comp_def)
  have "4 \<le> length ?p" using assms(2) by simp
  then show "luni_read_name ed =
           Some (map ucast (luni_units_spec ?p), concat (map utf8_unit_spec (luni_units_spec ?p)))"
    using inb unfolding luni_read_name_def Let_def w u by simp
  show "luni_read_name (luni_block [0, 0, 0, 1, 0x03, 0xA9]) = Some ([0x3A9], [0xCE, 0xA9])"
    by code_simp
  show "luni_read_name (luni_block [0, 0, 0, 1, 0x00, 0x41]) = Some ([0x41], [0x41])"
    by code_simp
  show "luni_read_name (luni_block [0, 0, 0, 2, 0xD8, 0x3D, 0xDE, 0x00]) =
           Some ([0xD83D, 0xDE00], [0xED, 0xA0, 0xBD, 0xED, 0xB8, 0x80])"
    by code_simp
qed

theorem luni_read_name_transcodes_witness:
  "luni_read_name (luni_block [0, 0, 0, 3, 0x00, 0x41, 0x03, 0xA9, 0x4E, 0x2D]) =
     Some ([0x41, 0x3A9, 0x4E2D], [0x41, 0xCE, 0xA9, 0xE4, 0xB8, 0xAD])"
proof -
  let ?p = "[0, 0, 0, 3, 0x00, 0x41, 0x03, 0xA9, 0x4E, 0x2D] :: byte list"
  have a: "length (ed_data (luni_block ?p)) < 2 ^ 32"
    by (simp add: luni_block_def)
  have b: "4 + 2 * unat (be_decode (take 4 (ed_data (luni_block ?p))) :: 32 word)
             \<le> length (ed_data (luni_block ?p))"
    by (simp add: luni_block_def be_decode_def)
  have c: "luni_units_spec (ed_data (luni_block ?p)) = [0x41, 0x3A9, 0x4E2D]"
    by code_simp
  have d: "concat (map utf8_unit_spec [0x41, 0x3A9, 0x4E2D]) = [0x41, 0xCE, 0xA9, 0xE4, 0xB8, 0xAD]"
    by code_simp
  show ?thesis
    using luni_read_name_transcodes [OF a b, THEN conjunct1] unfolding c d by simp
qed

section \<open>Extra data blocks: declared length and padding\<close>

text \<open>After a read that returns true the payload has as many bytes as the length field says,
  and a block in this state is written as its signature, key, length and payload, with
  nothing behind the payload.\<close>

lemma ExtraData_read_length:
  assumes "ExtraData_read ed f = (True, ed', f')"
  shows "length (ed_data ed') = unat (ed_length ed')"
  using assms length_stream_read [OF length_resize]
  apply (auto simp: ExtraData_read_def Let_def split: prod.splits if_splits)
  apply (metis fst_conv)+
  done

lemma ExtraData_write_emits:
  assumes "length (ed_data ed) = unat (ed_length ed)"
  shows "ExtraData_write ed out =
           (True, ed, out @ ed_signature ed @ ed_key ed @ be32_bytes (ed_length ed) @ ed_data ed)"
proof -
  have "resize (unat (ed_length ed)) (ed_data ed @ [0]) = ed_data ed"
    using assms by (simp add: resize_def)
  moreover have "resize (unat (ed_length ed)) (ed_data ed) = ed_data ed"
    using assms by (simp add: resize_def)
  ultimately show ?thesis
    by (simp add: ExtraData_write_def Let_def stream_write_def)
qed

text \<open>
  C7, where the code departs from it.  \<^verbatim>\<open>ExtraData::write\<close> appends a zero byte to a
  payload of odd size and then resizes the payload back to the declared length before it
  writes it: a block read with the declared length 1 is written with a payload of one
  byte, not padded to an even length.
\<close>

theorem ExtraData_write_odd_unpadded:
  "ExtraData_read (new_ExtraData zeroed) (in_stream (magic_8BIM @ key_TySh @ [0, 0, 0, 1, 0x41])) =
     (True, example_extra_data,
      (in_stream (magic_8BIM @ key_TySh @ [0, 0, 0, 1, 0x41]))\<lparr>gpos := 13\<rparr>) \<and>
   ExtraData_write example_extra_data [] =
     (True, example_extra_data, magic_8BIM @ key_TySh @ [0, 0, 0, 1, 0x41]) \<and>
   odd (length (ed_data (fst (snd (ExtraData_write example_extra_data [])))))"
  by code_simp

section \<open>Writing a layer record\<close>

lemma Layer_read_example:
  "Layer_read zeroed (new_Layer zeroed) (in_stream example_layer_bytes) =
     Some (True, example_layer, (in_stream example_layer_bytes)\<lparr>gpos := 46\<rparr>)"
  by code_simp

lemma Layer_write_example_name:
  "drop 42 (snd (snd (Layer_write sz u example_layer []))) =
     [layer_write_name_size u] @
     resize (unat (layer_write_name_size u)) [0x61, 0x62, 0x63] @
     (if layer_write_name_size u mod 4 = 0 then [0, 0, 0]
      else if layer_write_name_size u mod 4 = 1 then [0, 0]
      else if layer_write_name_size u mod 4 = 2 then [0]
      else [])"
  by (simp add: Layer_write_def example_layer_def Let_def set_num_channels_def
        set_extra_data_length_def stream_write_def LayerMask_write_def new_LayerMask_def
        LayerBlendingRanges_write_def be32_bytes_def be16_bytes_def magic_8BIM_def)

text \<open>
  C4, where the code departs from it.  \<^verbatim>\<open>Layer::write\<close> never assigns \<^verbatim>\<open>name_size\<close>.  For
  the layer read from \<open>example_layer_bytes\<close>, whose name field is \<open>03 61 62 63\<close>, the name
  field it writes (the bytes from offset 42 on, whatever the \<^verbatim>\<open>size()\<close> members are)
  starts with the indeterminate value, followed by the name cut or filled up to that
  length and the filler for it; with the value 0 it is \<open>00 00 00 00\<close>.
\<close>

theorem Layer_write_name_size_unset:
  "Layer_read zeroed (new_Layer zeroed) (in_stream example_layer_bytes) =
     Some (True, example_layer, (in_stream example_layer_bytes)\<lparr>gpos := 46\<rparr>) \<and>
   drop 42 example_layer_bytes = [3, 0x61, 0x62, 0x63] \<and>
   drop 42 (snd (snd (Layer_write sz u example_layer []))) =
     [layer_write_name_size u] @
     resize (unat (layer_write_name_size u)) [0x61, 0x62, 0x63] @
     (if layer_write_name_size u mod 4 = 0 then [0, 0, 0]
      else if layer_write_name_size u mod 4 = 1 then [0, 0]
      else if layer_write_name_size u mod 4 = 2 then [0]
      else []) \<and>
   drop 42 (snd (snd (Layer_write sz zeroed example_layer []))) = [0, 0, 0, 0]"
proof -
  have a: "Layer_read zeroed (new_Layer zeroed) (in_stream example_layer_bytes) =
     Some (True, example_layer, (in_stream example_layer_bytes)\<lparr>gpos := 46\<rparr>)"
    by (rule Layer_read_example)
  have b: "drop 42 example_layer_bytes = [3, 0x61, 0x62, 0x63]"
    by code_simp
  have c: "drop 42 (snd (snd (Layer_write sz zeroed example_layer []))) = [0, 0, 0, 0]"
    by (simp add: Layer_write_example_name) (simp add: zeroed_def resize_def)
  show ?thesis using a b c Layer_write_example_name by blast
qed

text \<open>What \<^verbatim>\<open>Layer::write\<close> does recompute: the channel count and the extra-data length.\<close>

lemma Layer_write_recomputes:
  assumes "length (head l) = 18" "length (blend l) = 16"
  shows "num_channels (fst (snd (Layer_write sz u l out))) = of_nat (length (channel_infos l)) \<and>
         extra_data_length (fst (snd (Layer_write sz u l out))) =
           sum_extra_data_sizes sz (additional_extra_data l)
             (mask_size sz (layer_mask l) + blending_ranges_size sz (blending_ranges l))"
  using assms
  by (simp add: Layer_write_def Let_def set_num_channels_def set_extra_data_length_def
        num_channels_def extra_data_length_def LayerBlendingRanges_write_def
        be_decode_be16_bytes be_decode_be32_bytes length_be16_bytes length_be32_bytes
        split: prod.splits)

end
